theory Spec2Isabelle
  imports Complex_Main
begin

section \<open>JavaScript values and strings\<close>

text \<open>
  Strings are lists of code units; the model covers the code units 0..255, which
  \<^typ>\<open>char\<close> holds.  \<open>String.prototype.toLowerCase\<close> maps A..Z and the
  upper-case letters of the Latin-1 block (U+00C0..U+00DE without U+00D7) to
  their lower-case partners, 32 code units higher, and leaves the rest alone.
\<close>

definition js_lower_char :: "char \<Rightarrow> char" where
  "js_lower_char c =
     (let n = (of_char c :: nat)
      in if (65 \<le> n \<and> n \<le> 90) \<or> (192 \<le> n \<and> n \<le> 222 \<and> n \<noteq> 215)
         then char_of (n + 32) else c)"

definition toLowerCase :: "string \<Rightarrow> string" where
  "toLowerCase s = map js_lower_char s"

fun starts_with :: "string \<Rightarrow> string \<Rightarrow> bool" where
  "starts_with s [] = True"
| "starts_with [] (p # ps) = False"
| "starts_with (c # cs) (p # ps) = (c = p \<and> starts_with cs ps)"

text \<open>\<open>s.includes(sub)\<close>: \<open>sub\<close> occurs in \<open>s\<close> as a contiguous run.\<close>

fun js_includes :: "string \<Rightarrow> string \<Rightarrow> bool" where
  "js_includes [] sub = (sub = [])"
| "js_includes (c # cs) sub = (starts_with (c # cs) sub \<or> js_includes cs sub)"

text \<open>
  An object literal such as \<open>{ 'good': 'good', ... }\<close> is an association list of its
  own properties.  Reading \<open>table[key]\<close> finds an own property first and then walks
  the prototype chain: every object literal inherits from \<open>Object.prototype\<close>, so
  the keys below yield a built-in object rather than \<open>undefined\<close>.
\<close>

datatype member = Str string | Inherited string

definition object_prototype_keys :: "string list" where
  "object_prototype_keys =
     [''constructor'', ''__proto__'', ''hasOwnProperty'', ''isPrototypeOf'',
      ''propertyIsEnumerable'', ''toLocaleString'', ''toString'', ''valueOf'',
      ''__defineGetter__'', ''__defineSetter__'', ''__lookupGetter__'', ''__lookupSetter__'']"

definition js_index :: "(string \<times> string) list \<Rightarrow> string \<Rightarrow> member option" where
  "js_index tbl k =
     (case map_of tbl k of
        Some v \<Rightarrow> Some (Str v)
      | None \<Rightarrow> if k \<in> set object_prototype_keys then Some (Inherited k) else None)"

text \<open>Truthiness of what a table lookup gives: the empty string is falsy, objects are truthy.\<close>

fun member_truthy :: "member \<Rightarrow> bool" where
  "member_truthy (Str s) = (s \<noteq> [])"
| "member_truthy (Inherited k) = True"

text \<open>\<open>table[key] || dflt\<close>\<close>

definition js_index_or :: "(string \<times> string) list \<Rightarrow> string \<Rightarrow> member \<Rightarrow> member" where
  "js_index_or tbl k dflt =
     (case js_index tbl k of
        Some v \<Rightarrow> if member_truthy v then v else dflt
      | None \<Rightarrow> dflt)"

text \<open>
  String conversion of such a value, as a template literal or a computed property
  key performs it.
\<close>

fun member_to_string :: "member \<Rightarrow> string" where
  "member_to_string (Str s) = s"
| "member_to_string (Inherited k) =
     (if k = ''__proto__'' then ''[object Object]''
      else ''function '' @ (if k = ''constructor'' then ''Object'' else k) @ ''() { [native code] }'')"

lemma of_char_js_lower_char:
  "(of_char (js_lower_char c) :: nat) =
     (if (65 \<le> (of_char c :: nat) \<and> (of_char c :: nat) \<le> 90)
         \<or> (192 \<le> (of_char c :: nat) \<and> (of_char c :: nat) \<le> 222 \<and> (of_char c :: nat) \<noteq> 215)
      then of_char c + 32 else of_char c)"
  by (simp add: js_lower_char_def Let_def)

section \<open>Ergonomic insight engine: status normalisation\<close>

datatype strictness = Lenient | Standard | Strict

record ErgonomicAnalysisConfig =
  enableDetailedMetrics :: bool
  includePostureAnalysis :: bool
  strictnessLevel :: strictness

fun statusMap :: "strictness \<Rightarrow> (string \<times> string) list" where
  "statusMap Lenient =
     [(''good'', ''good''),
      (''ok'', ''good''),
      (''acceptable'', ''good''),
      (''needs-improvement'', ''needs-improvement''),
      (''fair'', ''needs-improvement''),
      (''poor'', ''poor''),
      (''bad'', ''poor'')]"
| "statusMap Standard =
     [(''good'', ''good''),
      (''excellent'', ''good''),
      (''ok'', ''needs-improvement''),
      (''acceptable'', ''needs-improvement''),
      (''needs-improvement'', ''needs-improvement''),
      (''fair'', ''needs-improvement''),
      (''poor'', ''poor''),
      (''bad'', ''poor'')]"
| "statusMap Strict =
     [(''excellent'', ''good''),
      (''good'', ''needs-improvement''),
      (''ok'', ''needs-improvement''),
      (''acceptable'', ''poor''),
      (''needs-improvement'', ''poor''),
      (''fair'', ''poor''),
      (''poor'', ''poor''),
      (''bad'', ''poor'')]"

definition normalizeStatus :: "string \<Rightarrow> strictness \<Rightarrow> member" where
  "normalizeStatus status strictness =
     js_index_or (statusMap strictness) (toLowerCase status) (Str ''needs-improvement'')"

text \<open>
  The ordering of the canonical statuses, poor < needs-improvement < good; a value
  that is no canonical status has no rank.
\<close>

fun status_rank :: "member \<Rightarrow> nat option" where
  "status_rank (Str s) =
     (if s = ''poor'' then Some 0
      else if s = ''needs-improvement'' then Some 1
      else if s = ''good'' then Some 2
      else None)"
| "status_rank (Inherited k) = None"

text \<open>\<open>never_better a b\<close>: both are canonical statuses and \<open>a\<close> is at most \<open>b\<close>.\<close>

definition never_better :: "member \<Rightarrow> member \<Rightarrow> bool" where
  "never_better a b =
     (case (status_rank a, status_rank b) of
        (Some m, Some n) \<Rightarrow> m \<le> n
      | _ \<Rightarrow> False)"

lemma toLowerCase_excellent: "toLowerCase ''excellent'' = ''excellent''"
  by (simp add: toLowerCase_def js_lower_char_def)

text \<open>
  C4.  Status normalisation is meant to be monotone in strictness.  The lenient
  table has no entry for "excellent", which the standard and the strict table map
  to good: under lenient the word falls to the default needs-improvement, so the
  standard result is better than the lenient one.
\<close>

theorem normalizeStatus_excellent_lenient_below_standard:
  "normalizeStatus ''excellent'' Lenient = Str ''needs-improvement''
   \<and> normalizeStatus ''excellent'' Standard = Str ''good''
   \<and> \<not> never_better (normalizeStatus ''excellent'' Standard)
                      (normalizeStatus ''excellent'' Lenient)"
  by (simp add: normalizeStatus_def toLowerCase_excellent js_index_or_def js_index_def
      object_prototype_keys_def never_better_def)

section \<open>Numbers, decimal strings and sorting\<close>

text \<open>
  JavaScript numbers are modelled as real numbers: the model computes with exact
  values where the program rounds to IEEE doubles.  \<open>Math.round\<close> rounds to the
  nearest integer, halves upwards.
\<close>

definition Math_round :: "real \<Rightarrow> int" where
  "Math_round x = \<lfloor>x + 1 / 2\<rfloor>"

definition Math_floor :: "real \<Rightarrow> int" where
  "Math_floor x = \<lfloor>x\<rfloor>"

definition digit_char :: "nat \<Rightarrow> char" where
  "digit_char d = (if d < 10 then char_of (48 + d) else char_of (87 + d))"

text \<open>\<open>n.toString(radix)\<close> for a non-negative integer, and the decimal form of a template literal.\<close>

function digits_of :: "nat \<Rightarrow> nat \<Rightarrow> string" where
  "digits_of radix n =
     (if radix < 2 \<or> n < radix then [digit_char n]
      else digits_of radix (n div radix) @ [digit_char (n mod radix)])"
  by pat_completeness auto
termination
  by (relation "measure (\<lambda>(radix, n). n)") auto

declare digits_of.simps [simp del]

definition show_nat :: "nat \<Rightarrow> string" where
  "show_nat n = digits_of 10 n"

definition int_toString :: "nat \<Rightarrow> int \<Rightarrow> string" where
  "int_toString radix i =
     (if i < 0 then CHR ''-'' # digits_of radix (nat (- i)) else digits_of radix (nat i))"

text \<open>
  \<open>Array.prototype.sort(cmp)\<close> is a stable sort: an element is placed before the
  first element that the comparator puts after it, the elements taken in their
  original order.
\<close>

fun js_sort_insert :: "('a \<Rightarrow> 'a \<Rightarrow> int) \<Rightarrow> 'a \<Rightarrow> 'a list \<Rightarrow> 'a list" where
  "js_sort_insert cmp x [] = [x]"
| "js_sort_insert cmp x (y # ys) =
     (if cmp x y < 0 then x # y # ys else y # js_sort_insert cmp x ys)"

definition js_sort :: "('a \<Rightarrow> 'a \<Rightarrow> int) \<Rightarrow> 'a list \<Rightarrow> 'a list" where
  "js_sort cmp xs = foldl (\<lambda>acc x. js_sort_insert cmp x acc) [] xs"

text \<open>\<open>toUpperCase\<close> on text made of ASCII characters.\<close>

definition ascii_upper_char :: "char \<Rightarrow> char" where
  "ascii_upper_char c =
     (let n = (of_char c :: nat) in if 97 \<le> n \<and> n \<le> 122 then char_of (n - 32) else c)"

section \<open>Colour extraction\<close>

type_synonym pixel = "real \<times> real \<times> real"

record ColorExtractionOptions =
  maxColors :: nat
  quality :: nat
  ignoreWhite :: bool
  ignoreBlack :: bool

record ExtractedColor =
  hex :: string
  rgb :: pixel
  frequency :: real
  luminance :: real

datatype mood = Focus | Creativity | Calm | Energizing

record ColorPalette =
  palette_id :: string
  palette_name :: string
  colors :: "string list"
  palette_mood :: mood
  palette_description :: string

record color_group =
  pixels :: "pixel list"
  centroid :: pixel

definition DEFAULT_OPTIONS :: ColorExtractionOptions where
  "DEFAULT_OPTIONS = \<lparr>maxColors = 6, quality = 10, ignoreWhite = True, ignoreBlack = True\<rparr>"

definition linear_channel :: "real \<Rightarrow> real" where
  "linear_channel c0 =
     (let c = c0 / 255
      in if c \<le> 0.03928 then c / 12.92 else ((c + 0.055) / 1.055) powr 2.4)"

definition calculateLuminance :: "real \<Rightarrow> real \<Rightarrow> real \<Rightarrow> real" where
  "calculateLuminance r g b =
     0.2126 * linear_channel r + 0.7152 * linear_channel g + 0.0722 * linear_channel b"

definition calculateColorDistance :: "pixel \<Rightarrow> pixel \<Rightarrow> real" where
  "calculateColorDistance color1 color2 =
     (case (color1, color2) of
        ((r1, g1, b1), (r2, g2, b2)) \<Rightarrow> sqrt ((r2 - r1)\<^sup>2 + (g2 - g1)\<^sup>2 + (b2 - b1)\<^sup>2))"

text \<open>
  The average of a list of pixels, each channel rounded.  The program divides by
  the length of the list; it calls this on non-empty lists only.
\<close>

definition calculateAverageColor :: "pixel list \<Rightarrow> pixel" where
  "calculateAverageColor ps =
     (let sum = foldl (\<lambda>(a0, a1, a2) (p0, p1, p2). (a0 + p0, a1 + p1, a2 + p2)) (0, 0, 0) ps;
          count = real (length ps)
      in case sum of (s0, s1, s2) \<Rightarrow>
           (real_of_int (Math_round (s0 / count)),
            real_of_int (Math_round (s1 / count)),
            real_of_int (Math_round (s2 / count))))"

text \<open>
  One round of the inner loop of \<open>groupSimilarColors\<close>: the pixel joins the first
  group whose centroid is closer than the threshold, and that group's centroid is
  recomputed; \<open>None\<close> when no group is close enough.
\<close>

fun join_group :: "pixel \<Rightarrow> color_group list \<Rightarrow> color_group list option" where
  "join_group pixel [] = None"
| "join_group pixel (g # gs) =
     (if calculateColorDistance pixel (centroid g) < 30
      then Some (\<lparr>pixels = pixels g @ [pixel],
                  centroid = calculateAverageColor (pixels g @ [pixel])\<rparr> # gs)
      else map_option (\<lambda>gs'. g # gs') (join_group pixel gs))"

definition groupSimilarColors :: "pixel list \<Rightarrow> color_group list" where
  "groupSimilarColors ps =
     foldl (\<lambda>groups pixel.
              case join_group pixel groups of
                Some groups' \<Rightarrow> groups'
              | None \<Rightarrow> groups @ [\<lparr>pixels = [pixel], centroid = pixel\<rparr>])
           [] ps"

definition hex_component :: "real \<Rightarrow> string" where
  "hex_component x =
     (let h = int_toString 16 (Math_round x) in if length h = 1 then CHR ''0'' # h else h)"

definition rgbToHex :: "real \<Rightarrow> real \<Rightarrow> real \<Rightarrow> string" where
  "rgbToHex r g b =
     CHR ''#'' # map ascii_upper_char (concat (map hex_component [r, g, b]))"

definition keep_pixel :: "ColorExtractionOptions \<Rightarrow> pixel \<Rightarrow> bool" where
  "keep_pixel options p =
     (case p of (r, g, b) \<Rightarrow>
        (let lum = calculateLuminance r g b
         in if ignoreWhite options \<and> lum > 0.9 then False
            else if ignoreBlack options \<and> lum < 0.1 then False
            else True))"

definition extractDominantColors :: "pixel list \<Rightarrow> ColorExtractionOptions \<Rightarrow> ExtractedColor list" where
  "extractDominantColors ps options =
     (let filteredPixels = filter (keep_pixel options) ps;
          colorGroups = groupSimilarColors filteredPixels;
          sortedGroups =
            take (maxColors options)
              (js_sort (\<lambda>a b. int (length (pixels b)) - int (length (pixels a))) colorGroups)
      in map (\<lambda>group.
                let avgColor = calculateAverageColor (pixels group)
                in case avgColor of (r, g, b) \<Rightarrow>
                     \<lparr>hex = rgbToHex r g b,
                      rgb = avgColor,
                      frequency = real (length (pixels group)) / real (length filteredPixels),
                      luminance = calculateLuminance r g b\<rparr>)
             sortedGroups)"

text \<open>
  \<open>determineMood\<close> compares computed averages with thresholds, so the rounding of
  the machine arithmetic is part of what it computes.  Every arithmetic operation
  of the program yields the double nearest to the exact result, and a decimal
  literal such as \<open>0.6\<close> denotes the double nearest to it.  That rounding is the
  parameter \<open>fl\<close> of the definitions below; they hold for whatever it is.  The
  channels of a colour lie between 0 and 255 and its luminance between 0 and 1, so
  every intermediate result is a finite number.
\<close>

record mood_totals =
  warmColors :: nat
  coolColors :: nat
  totalSaturation :: real
  totalLuminance :: real

definition saturation_of :: "(real \<Rightarrow> real) \<Rightarrow> pixel \<Rightarrow> real" where
  "saturation_of fl p =
     (case p of (r, g, b) \<Rightarrow>
        (let mx = max r (max g b); mn = min r (min g b)
         in if mx = 0 then 0 else fl (fl (mx - mn) / mx)))"

text \<open>The body of the \<open>forEach\<close> in \<open>determineMood\<close>.\<close>

definition mood_step :: "(real \<Rightarrow> real) \<Rightarrow> mood_totals \<Rightarrow> ExtractedColor \<Rightarrow> mood_totals" where
  "mood_step fl t color =
     (case rgb color of (r, g, b) \<Rightarrow>
        \<lparr>warmColors = (if r > b then warmColors t + 1 else warmColors t),
         coolColors = (if r > b then coolColors t else coolColors t + 1),
         totalSaturation = fl (totalSaturation t + saturation_of fl (rgb color)),
         totalLuminance = fl (totalLuminance t + luminance color)\<rparr>)"

definition determineMood :: "(real \<Rightarrow> real) \<Rightarrow> ExtractedColor list \<Rightarrow> mood" where
  "determineMood fl cs =
     (if length cs = 0 then Focus
      else
        let t = foldl (mood_step fl)
                  \<lparr>warmColors = 0, coolColors = 0, totalSaturation = 0, totalLuminance = 0\<rparr> cs;
            avgSaturation = fl (totalSaturation t / real (length cs));
            avgLuminance = fl (totalLuminance t / real (length cs));
            isWarm = (warmColors t > coolColors t)
        in if avgSaturation > fl 0.6 \<and> avgLuminance > fl 0.5 then Energizing
           else if avgSaturation > fl 0.4 \<and> isWarm then Creativity
           else if avgLuminance < fl 0.3 \<or> avgSaturation < fl 0.2 then Focus
           else Calm)"








subsection \<open>Mood classification follows the decision order\<close>








section \<open>Analysis orchestrator\<close>

definition MAX_RETRIES :: nat where
  "MAX_RETRIES = 5"

definition RETRY_DELAY_MS :: nat where
  "RETRY_DELAY_MS = 2000"

definition INITIALIZING :: string where
  "INITIALIZING = ''Initializing analysis...''"

definition PROCESSING_IMAGE :: string where
  "PROCESSING_IMAGE = ''Analyzing workspace image...''"

definition GENERATING_RECOMMENDATIONS :: string where
  "GENERATING_RECOMMENDATIONS = ''Generating product recommendations...''"

definition FINALIZING :: string where
  "FINALIZING = ''Finalizing results...''"

datatype error_code =
    NETWORK_ERROR | API_ERROR | TIMEOUT_ERROR | INVALID_IMAGE
  | QUOTA_EXCEEDED | UNKNOWN_ERROR | RATE_LIMIT_ERROR | INVALID_API_KEY

record AIAnalysisError =
  code :: error_code
  message :: string
  details :: "string option"
  retryable :: bool

text \<open>\<open>OpenAIClientService.createError\<close>, which builds the objects the model client throws.\<close>

definition createError :: "error_code \<Rightarrow> string \<Rightarrow> string option \<Rightarrow> AIAnalysisError" where
  "createError c msg det =
     \<lparr>code = c, message = msg, details = det,
      retryable = (c \<in> set [NETWORK_ERROR, TIMEOUT_ERROR, API_ERROR, RATE_LIMIT_ERROR])\<rparr>"

text \<open>What the program throws: an \<open>Error\<close> with its message, or an error object of the client.\<close>

datatype thrown = JsError string | ApiError AIAnalysisError

fun thrown_message :: "thrown \<Rightarrow> string" where
  "thrown_message (JsError m) = m"
| "thrown_message (ApiError e) = message e"

text \<open>
  What the orchestrator does to the outside, in order: progress callbacks, sleeps,
  and its calls of the image service and of the model client.
\<close>

datatype event =
    Progress string nat
  | Delay nat
  | ValidateImage
  | ConvertImage
  | ModelCall

text \<open>
  The outside of one run, per attempt (attempts count from 1): the number of bytes
  the validation reads from the photo (\<open>None\<close> when the read fails), whether the
  conversion to base64 succeeds, what the model client returns or throws, and the
  stages after the model call (parsing, recommendations, colours, ergonomics and
  the assembly of the result), which are a parameter of this model with the
  progress they report.  \<open>clock_start\<close> and \<open>clock_end\<close> are the readings of
  \<open>Date.now()\<close>.
\<close>

record 'r world =
  validate_read :: "nat \<Rightarrow> nat option"
  convert_ok :: "nat \<Rightarrow> bool"
  model_reply :: "nat \<Rightarrow> thrown + string"
  enrichment :: "nat \<Rightarrow> string \<Rightarrow> event list \<times> (thrown + 'r)"
  clock_start :: nat
  clock_end :: "nat \<Rightarrow> nat"

record image_validation =
  isValid :: bool
  error :: "string option"
  size_mb :: "real option"

definition validateImageForAI :: "nat option \<Rightarrow> image_validation" where
  "validateImageForAI bytes =
     (case bytes of
        None \<Rightarrow> \<lparr>isValid = False, error = Some ''Unable to validate image file'', size_mb = None\<rparr>
      | Some n \<Rightarrow>
          (let sizeInMB = real n / (1024 * 1024)
           in if sizeInMB > 20
              then \<lparr>isValid = False,
                    error = Some ''Image size exceeds 20MB limit for AI processing'',
                    size_mb = Some sizeInMB\<rparr>
              else if n = 0
              then \<lparr>isValid = False, error = Some ''Image file is empty or corrupted'',
                    size_mb = None\<rparr>
              else \<lparr>isValid = True, error = None, size_mb = Some sizeInMB\<rparr>))"

text \<open>A template literal prints a missing value as \<open>undefined\<close>.\<close>

definition template_opt :: "string option \<Rightarrow> string" where
  "template_opt v = (case v of None \<Rightarrow> ''undefined'' | Some s \<Rightarrow> s)"

definition performAnalysis :: "'r world \<Rightarrow> nat \<Rightarrow> event list \<times> (thrown + 'r)" where
  "performAnalysis w attempt =
     (let imageValidation = validateImageForAI (validate_read w attempt);
          tr1 = [Progress PROCESSING_IMAGE 30, ValidateImage]
      in if \<not> isValid imageValidation
         then (tr1, Inl (JsError (''Image validation failed: '' @ template_opt (error imageValidation))))
         else if \<not> convert_ok w attempt
         then (tr1 @ [ConvertImage], Inl (JsError ''Unable to process image file''))
         else
           (let tr2 = tr1 @ [ConvertImage, Progress PROCESSING_IMAGE 50, ModelCall]
            in case model_reply w attempt of
                 Inl e \<Rightarrow> (tr2, Inl e)
               | Inr aiContent \<Rightarrow>
                   (case enrichment w attempt aiContent of
                      (tr3, outcome) \<Rightarrow>
                        (tr2 @ [Progress GENERATING_RECOMMENDATIONS 70] @ tr3, outcome))))"

text \<open>
  The retry loop of \<open>analyzeWorkspace\<close>, from attempt \<open>attempt\<close> on, with the last
  error caught and the events so far.  A success returns the result with its
  processing time; when the attempts are used up the terminal error is thrown.
\<close>

definition terminal_error :: "thrown option \<Rightarrow> thrown" where
  "terminal_error lastError =
     JsError (''Analysis failed after '' @ show_nat MAX_RETRIES @ '' attempts: ''
              @ (case lastError of
                   None \<Rightarrow> ''Unknown error''
                 | Some e \<Rightarrow> if thrown_message e = [] then ''Unknown error'' else thrown_message e))"

definition retry_events :: "nat \<Rightarrow> event list" where
  "retry_events attempt =
     (if attempt < MAX_RETRIES
      then [Progress (''Retrying analysis ('' @ show_nat attempt @ ''/'' @ show_nat MAX_RETRIES
                      @ '')...'') 15,
            Delay (RETRY_DELAY_MS * attempt)]
      else [])"

function attempt_loop ::
  "'r world \<Rightarrow> nat \<Rightarrow> thrown option \<Rightarrow> event list \<Rightarrow> event list \<times> (thrown + 'r \<times> int)" where
  "attempt_loop w attempt lastError tr =
     (if attempt \<le> MAX_RETRIES
      then (case performAnalysis w attempt of
              (es, Inr result) \<Rightarrow>
                (tr @ es @ [Progress FINALIZING 100],
                 Inr (result, int (clock_end w attempt) - int (clock_start w)))
            | (es, Inl e) \<Rightarrow>
                attempt_loop w (attempt + 1) (Some e) (tr @ es @ retry_events attempt))
      else (tr, Inl (terminal_error lastError)))"
  by pat_completeness auto
termination
  by (relation "measure (\<lambda>(w, attempt, lastError, tr). MAX_RETRIES + 1 - attempt)") auto

declare attempt_loop.simps [simp del]

definition analyzeWorkspace :: "'r world \<Rightarrow> event list \<times> (thrown + 'r \<times> int)" where
  "analyzeWorkspace w =
     attempt_loop w 1 None [Progress INITIALIZING 10, Progress PROCESSING_IMAGE 20]"

text \<open>The model calls and the sleeps of a run, in order.\<close>

fun is_call_or_delay :: "event \<Rightarrow> bool" where
  "is_call_or_delay ModelCall = True"
| "is_call_or_delay (Delay d) = True"
| "is_call_or_delay e = False"

text \<open>The validations and the sleeps of a run, in order.\<close>

fun is_validation_or_delay :: "event \<Rightarrow> bool" where
  "is_validation_or_delay ValidateImage = True"
| "is_validation_or_delay (Delay d) = True"
| "is_validation_or_delay e = False"

subsection \<open>The retry loop when every attempt fails\<close>


lemma show_nat_digits:
  "show_nat 1 = ''1''" "show_nat 2 = ''2''" "show_nat 3 = ''3''" "show_nat 4 = ''4''"
  "show_nat 5 = ''5''" "show_nat 6 = ''6''" "show_nat 8 = ''8''"
  by code_simp+


lemma attempt_loop_failed_attempt:
  "attempt \<le> MAX_RETRIES \<Longrightarrow> performAnalysis w attempt = (es, Inl e) \<Longrightarrow>
   attempt_loop w attempt lastError tr =
     attempt_loop w (attempt + 1) (Some e) (tr @ es @ retry_events attempt)"
  by (subst attempt_loop.simps) simp

lemma attempt_loop_exhausted:
  "MAX_RETRIES < attempt \<Longrightarrow> attempt_loop w attempt lastError tr = (tr, Inl (terminal_error lastError))"
  by (subst attempt_loop.simps) simp

lemma analyzeWorkspace_all_attempts_fail:
  assumes "\<And>k. 1 \<le> k \<Longrightarrow> k \<le> 5 \<Longrightarrow> performAnalysis w k = (es k, Inl (e k))"
  shows "analyzeWorkspace w =
           ([Progress INITIALIZING 10, Progress PROCESSING_IMAGE 20]
              @ es 1 @ retry_events 1 @ es 2 @ retry_events 2 @ es 3 @ retry_events 3
              @ es 4 @ retry_events 4 @ es 5,
            Inl (terminal_error (Some (e 5))))"
proof -
  have a: "performAnalysis w 1 = (es 1, Inl (e 1))" "performAnalysis w 2 = (es 2, Inl (e 2))"
    "performAnalysis w 3 = (es 3, Inl (e 3))" "performAnalysis w 4 = (es 4, Inl (e 4))"
    "performAnalysis w 5 = (es 5, Inl (e 5))"
    using assms by simp_all
  have r5: "retry_events 5 = []"
    by (simp add: retry_events_def MAX_RETRIES_def)
  show ?thesis
    unfolding analyzeWorkspace_def
    apply (subst attempt_loop_failed_attempt [OF _ a(1)], simp add: MAX_RETRIES_def)
    apply (simp only: one_add_one numeral_plus_one semiring_norm)
    apply (subst attempt_loop_failed_attempt [OF _ a(2)], simp add: MAX_RETRIES_def)
    apply (simp only: one_add_one numeral_plus_one semiring_norm)
    apply (subst attempt_loop_failed_attempt [OF _ a(3)], simp add: MAX_RETRIES_def)
    apply (simp only: one_add_one numeral_plus_one semiring_norm)
    apply (subst attempt_loop_failed_attempt [OF _ a(4)], simp add: MAX_RETRIES_def)
    apply (simp only: one_add_one numeral_plus_one semiring_norm)
    apply (subst attempt_loop_failed_attempt [OF _ a(5)], simp add: MAX_RETRIES_def)
    apply (simp only: one_add_one numeral_plus_one semiring_norm)
    apply (subst attempt_loop_exhausted, simp add: MAX_RETRIES_def)
    apply (simp add: r5)
    done
qed


lemma validateImageForAI_valid:
  "0 < n \<Longrightarrow> n \<le> 20971520 \<Longrightarrow> isValid (validateImageForAI (Some n))"
  by (simp add: validateImageForAI_def Let_def)

lemma performAnalysis_model_call_fails:
  assumes "validate_read w k = Some n" "0 < n" "n \<le> 20971520" "convert_ok w k"
    "model_reply w k = Inl e"
  shows "performAnalysis w k =
           ([Progress PROCESSING_IMAGE 30, ValidateImage, ConvertImage,
             Progress PROCESSING_IMAGE 50, ModelCall], Inl e)"
  using assms validateImageForAI_valid [of n]
  by (simp add: performAnalysis_def Let_def)

lemma performAnalysis_invalid_image:
  assumes "\<not> isValid (validateImageForAI (validate_read w k))"
  shows "performAnalysis w k =
           ([Progress PROCESSING_IMAGE 30, ValidateImage],
            Inl (JsError (''Image validation failed: ''
                          @ template_opt (error (validateImageForAI (validate_read w k))))))"
  using assms by (simp add: performAnalysis_def Let_def)

lemma retry_events_filtered:
  "k < 5 \<Longrightarrow> filter is_call_or_delay (retry_events k) = [Delay (2000 * k)]"
  "k < 5 \<Longrightarrow> filter is_validation_or_delay (retry_events k) = [Delay (2000 * k)]"
  by (simp_all add: retry_events_def MAX_RETRIES_def RETRY_DELAY_MS_def)

lemma terminal_error_message:
  "terminal_error (Some e) =
     JsError (''Analysis failed after 5 attempts: ''
              @ (if thrown_message e = [] then ''Unknown error'' else thrown_message e))"
  by (simp add: terminal_error_def MAX_RETRIES_def show_nat_digits)

text \<open>
  C6.  When at every attempt the photo passes validation and conversion and the
  model call fails with a retryable error, \<open>analyzeWorkspace\<close> calls the model
  exactly \<open>MAX_RETRIES\<close> = 5 times, sleeps \<open>attempt * RETRY_DELAY_MS\<close> between
  consecutive attempts (2000, 4000, 6000, 8000 ms) and then throws one error whose
  message ends with the message of the last failure (an empty message is printed
  as "Unknown error"); no result is returned.
\<close>

theorem analyzeWorkspace_exhausts_retries:
  assumes "\<And>k. 1 \<le> k \<Longrightarrow> k \<le> MAX_RETRIES \<Longrightarrow>
             validate_read w k = Some (n k) \<and> 0 < n k \<and> n k \<le> 20 * 1024 * 1024
             \<and> convert_ok w k
             \<and> model_reply w k = Inl (ApiError (err k)) \<and> retryable (err k)"
  shows "filter is_call_or_delay (fst (analyzeWorkspace w)) =
           [ModelCall, Delay (1 * RETRY_DELAY_MS), ModelCall, Delay (2 * RETRY_DELAY_MS),
            ModelCall, Delay (3 * RETRY_DELAY_MS), ModelCall, Delay (4 * RETRY_DELAY_MS),
            ModelCall]
         \<and> snd (analyzeWorkspace w) =
             Inl (JsError (''Analysis failed after 5 attempts: ''
                    @ (if message (err MAX_RETRIES) = [] then ''Unknown error''
                       else message (err MAX_RETRIES))))"
proof -
  have "performAnalysis w k =
           ([Progress PROCESSING_IMAGE 30, ValidateImage, ConvertImage,
             Progress PROCESSING_IMAGE 50, ModelCall], Inl (ApiError (err k)))"
    if "1 \<le> k" "k \<le> 5" for k
    using assms [of k] that
    by (intro performAnalysis_model_call_fails [of w k "n k"]) (simp_all add: MAX_RETRIES_def)
  from analyzeWorkspace_all_attempts_fail [of w "\<lambda>_. [Progress PROCESSING_IMAGE 30, ValidateImage, ConvertImage,
             Progress PROCESSING_IMAGE 50, ModelCall]" "\<lambda>k. ApiError (err k)", OF this]
  show ?thesis
    by (simp add: retry_events_filtered terminal_error_message MAX_RETRIES_def RETRY_DELAY_MS_def)
qed

definition network_down_world :: "unit world" where
  "network_down_world =
     \<lparr>validate_read = (\<lambda>k. Some 1000),
      convert_ok = (\<lambda>k. True),
      model_reply = (\<lambda>k. Inl (ApiError (createError NETWORK_ERROR
                        ''Network error. Please check your connection.'' None))),
      enrichment = (\<lambda>k content. ([], Inr ())),
      clock_start = 0,
      clock_end = (\<lambda>k. 0)\<rparr>"

theorem analyzeWorkspace_exhausts_retries_witness:
  "filter is_call_or_delay (fst (analyzeWorkspace network_down_world)) =
     [ModelCall, Delay 2000, ModelCall, Delay 4000, ModelCall, Delay 6000, ModelCall,
      Delay 8000, ModelCall]
   \<and> snd (analyzeWorkspace network_down_world) =
       Inl (JsError ''Analysis failed after 5 attempts: Network error. Please check your connection.'')"
  using analyzeWorkspace_exhausts_retries [of network_down_world "\<lambda>k. 1000"
      "\<lambda>k. createError NETWORK_ERROR ''Network error. Please check your connection.'' None"]
  by (simp add: network_down_world_def createError_def MAX_RETRIES_def RETRY_DELAY_MS_def)

definition oversized_photo_world :: "unit world" where
  "oversized_photo_world =
     \<lparr>validate_read = (\<lambda>k. Some (21 * 1024 * 1024)),
      convert_ok = (\<lambda>k. True),
      model_reply = (\<lambda>k. Inr ''{}''),
      enrichment = (\<lambda>k content. ([], Inr ())),
      clock_start = 0,
      clock_end = (\<lambda>k. 0)\<rparr>"

text \<open>
  C7.  A photo that fails validation should abort the analysis at once.  The
  validation runs inside \<open>performAnalysis\<close>, within the retry loop, and the loop
  catches every error alike: for a photo of 21 MB the validation is repeated at
  each of the 5 attempts, with the sleeps of 2000, 4000, 6000 and 8000 ms between
  them, before the terminal error is thrown.
\<close>

theorem analyzeWorkspace_retries_invalid_photo:
  "filter is_validation_or_delay (fst (analyzeWorkspace oversized_photo_world)) =
     [ValidateImage, Delay 2000, ValidateImage, Delay 4000, ValidateImage, Delay 6000,
      ValidateImage, Delay 8000, ValidateImage]
   \<and> snd (analyzeWorkspace oversized_photo_world) =
       Inl (JsError ''Analysis failed after 5 attempts: Image validation failed: Image size exceeds 20MB limit for AI processing'')"
proof -
  have v: "validateImageForAI (validate_read oversized_photo_world k) =
      \<lparr>isValid = False, error = Some ''Image size exceeds 20MB limit for AI processing'',
       size_mb = Some 21\<rparr>" for k
    by (simp add: oversized_photo_world_def validateImageForAI_def Let_def)
  have "performAnalysis oversized_photo_world k =
           ([Progress PROCESSING_IMAGE 30, ValidateImage],
            Inl (JsError ''Image validation failed: Image size exceeds 20MB limit for AI processing''))"
    for k
    using performAnalysis_invalid_image [of oversized_photo_world k]
    by (simp add: v template_opt_def)
  from analyzeWorkspace_all_attempts_fail [of oversized_photo_world
      "\<lambda>_. [Progress PROCESSING_IMAGE 30, ValidateImage]"
      "\<lambda>_. JsError ''Image validation failed: Image size exceeds 20MB limit for AI processing''",
      OF this]
  show ?thesis
    by (simp add: retry_events_filtered terminal_error_message)
qed


section \<open>Values of type \<open>any\<close>\<close>

text \<open>
  A value the program handles untyped: what \<open>JSON.parse\<close> can return, \<open>undefined\<close>,
  and the built-in objects a lookup can reach through \<open>Object.prototype\<close>.  An
  object is the association list of its own properties.
\<close>

datatype jsval =
    JUndefined
  | JNull
  | JBool bool
  | JNum real
  | JStr string
  | JArr "jsval list"
  | JObj "(string \<times> jsval) list"
  | JBuiltin string

datatype js_exception = TypeError | SyntaxError

fun js_truthy :: "jsval \<Rightarrow> bool" where
  "js_truthy JUndefined = False"
| "js_truthy JNull = False"
| "js_truthy (JBool b) = b"
| "js_truthy (JNum x) = (x \<noteq> 0)"
| "js_truthy (JStr s) = (s \<noteq> [])"
| "js_truthy (JArr xs) = True"
| "js_truthy (JObj kvs) = True"
| "js_truthy (JBuiltin k) = True"

fun js_of_member :: "member \<Rightarrow> jsval" where
  "js_of_member (Str s) = JStr s"
| "js_of_member (Inherited k) = JBuiltin k"

text \<open>
  \<open>v.name\<close>, for a property name that the prototypes of strings, numbers, arrays
  and functions do not define (the names the services read are of this kind):
  reading from \<open>null\<close> or \<open>undefined\<close> throws, an object gives its own property or
  what it inherits from \<open>Object.prototype\<close>, anything else gives \<open>undefined\<close>.
\<close>

fun js_get :: "jsval \<Rightarrow> string \<Rightarrow> js_exception + jsval" where
  "js_get JUndefined name = Inl TypeError"
| "js_get JNull name = Inl TypeError"
| "js_get (JObj kvs) name =
     (case map_of kvs name of
        Some v \<Rightarrow> Inr v
      | None \<Rightarrow> if name \<in> set object_prototype_keys then Inr (JBuiltin name) else Inr JUndefined)"
| "js_get v name = Inr JUndefined"


text \<open>
  \<open>v.toLowerCase()\<close>: of the values above only a string has the method; on any
  other the call throws a \<open>TypeError\<close>.
\<close>

fun js_call_toLowerCase :: "jsval \<Rightarrow> js_exception + string" where
  "js_call_toLowerCase (JStr s) = Inr (toLowerCase s)"
| "js_call_toLowerCase v = Inl TypeError"

section \<open>Prompt context\<close>

record QuizResponse =
  questionId :: string
  selectedOptionIds :: "string list"
  timestamp :: nat

record AIPromptContext =
  userVibe :: member
  colorPreference :: member
  budgetRange :: member
  imageDescription :: string

definition vibeMap :: "(string \<times> string) list" where
  "vibeMap =
     [(''focus-minimal'', ''Focus & Minimal - Clean, distraction-free environment for deep work''),
      (''creative-inspiring'',
       ''Creative & Inspiring - Vibrant space that sparks creativity and innovation''),
      (''cozy-warm'', ''Cozy & Warm - Comfortable, welcoming atmosphere for relaxed productivity'')]"

definition colorMap :: "(string \<times> string) list" where
  "colorMap =
     [(''neutral-tones'', ''Neutral Tones - Calming beiges, whites, and soft grays''),
      (''bold-accents'', ''Bold Accents - Energizing pops of color with strong contrasts''),
      (''natural-greens'', ''Natural Greens - Refreshing plant-inspired earth tones'')]"

definition budgetMap :: "(string \<times> string) list" where
  "budgetMap =
     [(''budget-low'', ''Under $500 - Budget-friendly essentials and DIY solutions''),
      (''budget-mid'', ''$500 - $1500 - Quality pieces with good value for money''),
      (''budget-high'', ''$1500+ - Premium furniture and complete workspace transformation'')]"

text \<open>
  \<open>responseMap.get(q) || ''\<close>, where \<open>responseMap\<close> is the \<open>Map\<close> built from the
  responses: a later response to a question replaces an earlier one, and the value
  is the first selected option (\<open>undefined\<close> when none is selected).
\<close>

definition response_or_empty :: "QuizResponse list \<Rightarrow> string \<Rightarrow> string" where
  "response_or_empty quizResponses q =
     (case map_of (rev (map (\<lambda>r. (questionId r, selectedOptionIds r)) quizResponses)) q of
        None \<Rightarrow> []
      | Some [] \<Rightarrow> []
      | Some (opt # _) \<Rightarrow> opt)"

definition createPromptContext :: "QuizResponse list \<Rightarrow> AIPromptContext" where
  "createPromptContext quizResponses =
     \<lparr>userVibe =
        js_index_or vibeMap (response_or_empty quizResponses ''workspace-vibe'')
          (Str ''Modern and functional''),
      colorPreference =
        js_index_or colorMap (response_or_empty quizResponses ''color-preference'')
          (Str ''Neutral and calming''),
      budgetRange =
        js_index_or budgetMap (response_or_empty quizResponses ''budget-range'')
          (Str ''Mid-range quality''),
      imageDescription = []\<rparr>"

text \<open>The context as the untyped value the recommendation service receives.\<close>

definition context_value :: "AIPromptContext \<Rightarrow> jsval" where
  "context_value c =
     JObj [(''userVibe'', js_of_member (userVibe c)),
           (''colorPreference'', js_of_member (colorPreference c)),
           (''budgetRange'', js_of_member (budgetRange c)),
           (''imageDescription'', JStr (imageDescription c))]"

section \<open>Product recommendations\<close>

datatype product_category = Desk | Chair | Lighting | Storage | Decor | Tech

record product_template =
  t_category :: product_category
  t_name :: string
  t_description :: string
  basePrice :: real
  t_tags :: "string list"

record price_range =
  price_min :: int
  price_max :: int
  currency :: string

record ProductRecommendation =
  rec_id :: string
  rec_name :: string
  rec_description :: string
  price :: price_range
  rec_category :: product_category
  imageUrl :: string
  rec_tags :: "string list"
  rating :: real

text \<open>
  \<open>encodeURIComponent\<close> on code units up to 255: letters, digits and
  \<open>- _ . ! ~ * ' ( )\<close> stay, every other character becomes the percent-escapes of
  its UTF-8 bytes.
\<close>

definition uri_unreserved :: "char \<Rightarrow> bool" where
  "uri_unreserved c =
     (let n = (of_char c :: nat)
      in (65 \<le> n \<and> n \<le> 90) \<or> (97 \<le> n \<and> n \<le> 122) \<or> (48 \<le> n \<and> n \<le> 57)
         \<or> c \<in> set ''-_.!~*'()'')"

definition percent_byte :: "nat \<Rightarrow> string" where
  "percent_byte b =
     CHR ''%'' # map ascii_upper_char [digit_char (b div 16), digit_char (b mod 16)]"

definition encode_char :: "char \<Rightarrow> string" where
  "encode_char c =
     (let n = (of_char c :: nat)
      in if uri_unreserved c then [c]
         else if n < 128 then percent_byte n
         else percent_byte (192 + n div 64) @ percent_byte (128 + n mod 64))"

definition encodeURIComponent :: "string \<Rightarrow> string" where
  "encodeURIComponent s = concat (map encode_char s)"

definition calculatePriceMultiplier :: "jsval \<Rightarrow> js_exception + real" where
  "calculatePriceMultiplier budget =
     (if \<not> js_truthy budget then Inr 1
      else case js_call_toLowerCase budget of
             Inl e \<Rightarrow> Inl e
           | Inr budgetStr \<Rightarrow>
               if js_includes budgetStr ''under'' \<or> js_includes budgetStr ''500'' then Inr 0.6
               else if js_includes budgetStr ''1500'' \<or> js_includes budgetStr ''high''
                       \<or> js_includes budgetStr ''premium'' then Inr 1.8
               else Inr 1)"

definition getBaseProducts :: "product_template list" where
  "getBaseProducts =
     [\<lparr>t_category = Chair, t_name = ''Ergonomic Office Chair'',
       t_description = ''Comfortable office chair with lumbar support and adjustable height for better posture and productivity.'',
       basePrice = 150, t_tags = [''ergonomic'', ''comfort'', ''productivity'']\<rparr>,
      \<lparr>t_category = Desk, t_name = ''Standing Desk Converter'',
       t_description = ''Adjustable desk converter that allows you to alternate between sitting and standing throughout the day.'',
       basePrice = 200, t_tags = [''adjustable'', ''health'', ''ergonomic'']\<rparr>,
      \<lparr>t_category = Lighting, t_name = ''LED Desk Lamp'',
       t_description = ''Adjustable LED desk lamp with multiple brightness levels and color temperatures to reduce eye strain.'',
       basePrice = 60, t_tags = [''adjustable'', ''eye-care'', ''modern'']\<rparr>,
      \<lparr>t_category = Storage, t_name = ''Desktop Organizer'',
       t_description = ''Multi-compartment desk organizer to keep your workspace tidy and improve organization.'',
       basePrice = 35, t_tags = [''organization'', ''tidy'', ''productivity'']\<rparr>,
      \<lparr>t_category = Tech, t_name = ''Monitor Stand'',
       t_description = ''Adjustable monitor stand to improve screen positioning and reduce neck strain.'',
       basePrice = 45, t_tags = [''ergonomic'', ''adjustable'', ''organization'']\<rparr>,
      \<lparr>t_category = Decor, t_name = ''Desktop Plant'',
       t_description = ''Low-maintenance succulent or air plant to add natural elements and improve air quality.'',
       basePrice = 25, t_tags = [''natural'', ''air-quality'', ''aesthetic'']\<rparr>]"

definition getStyleSpecificProducts :: "jsval \<Rightarrow> js_exception + product_template list" where
  "getStyleSpecificProducts vibeValue =
     (if \<not> js_truthy vibeValue then Inr []
      else case js_call_toLowerCase vibeValue of
             Inl e \<Rightarrow> Inl e
           | Inr vibe \<Rightarrow>
               Inr ((if js_includes vibe ''modern'' \<or> js_includes vibe ''minimalist''
                     then [\<lparr>t_category = Decor, t_name = ''Minimalist Wall Art'',
                            t_description = ''Clean, geometric wall art that complements a modern workspace aesthetic.'',
                            basePrice = 40, t_tags = [''modern'', ''minimalist'', ''aesthetic'']\<rparr>]
                     else [])
                  @ (if js_includes vibe ''cozy'' \<or> js_includes vibe ''warm''
                     then [\<lparr>t_category = Lighting, t_name = ''Warm Ambient Light'',
                            t_description = ''Soft, warm lighting to create a cozy and comfortable workspace atmosphere.'',
                            basePrice = 55, t_tags = [''cozy'', ''warm'', ''ambient'']\<rparr>]
                     else [])
                  @ (if js_includes vibe ''productive'' \<or> js_includes vibe ''professional''
                     then [\<lparr>t_category = Storage, t_name = ''Filing Cabinet'',
                            t_description = ''Compact filing cabinet to organize documents and maintain a professional workspace.'',
                            basePrice = 120, t_tags = [''professional'', ''organization'', ''storage'']\<rparr>]
                     else [])
                  @ (if js_includes vibe ''creative'' \<or> js_includes vibe ''artistic''
                     then [\<lparr>t_category = Decor, t_name = ''Inspiration Board'',
                            t_description = ''Cork board or magnetic board for displaying ideas, sketches, and inspiration.'',
                            basePrice = 30, t_tags = [''creative'', ''inspiration'', ''organization'']\<rparr>]
                     else [])
                  @ (if js_includes vibe ''tech'' \<or> js_includes vibe ''gaming''
                     then [\<lparr>t_category = Tech, t_name = ''RGB LED Strip'',
                            t_description = ''Customizable RGB LED lighting to create an immersive tech workspace atmosphere.'',
                            basePrice = 35, t_tags = [''tech'', ''gaming'', ''customizable'']\<rparr>]
                     else [])))"

definition getFallbackRecommendations :: "ProductRecommendation list" where
  "getFallbackRecommendations =
     [\<lparr>rec_id = ''rec_fallback_1'', rec_name = ''Ergonomic Office Chair'',
       rec_description = ''Comfortable office chair with lumbar support for better posture.'',
       price = \<lparr>price_min = 120, price_max = 180, currency = ''USD''\<rparr>,
       rec_category = Chair,
       imageUrl = ''https://via.placeholder.com/300x200/4A90E2/FFFFFF?text=Office+Chair'',
       rec_tags = [''ergonomic'', ''comfort''], rating = 4.3\<rparr>,
      \<lparr>rec_id = ''rec_fallback_2'', rec_name = ''LED Desk Lamp'',
       rec_description = ''Adjustable LED desk lamp to reduce eye strain.'',
       price = \<lparr>price_min = 45, price_max = 75, currency = ''USD''\<rparr>,
       rec_category = Lighting,
       imageUrl = ''https://via.placeholder.com/300x200/4A90E2/FFFFFF?text=Desk+Lamp'',
       rec_tags = [''lighting'', ''adjustable''], rating = 4.5\<rparr>,
      \<lparr>rec_id = ''rec_fallback_3'', rec_name = ''Desktop Organizer'',
       rec_description = ''Multi-compartment organizer to keep your workspace tidy.'',
       price = \<lparr>price_min = 25, price_max = 45, currency = ''USD''\<rparr>,
       rec_category = Storage,
       imageUrl = ''https://via.placeholder.com/300x200/4A90E2/FFFFFF?text=Organizer'',
       rec_tags = [''organization'', ''storage''], rating = 4.4\<rparr>]"

text \<open>
  The body of the \<open>forEach\<close> that prices a selected product; \<open>random\<close> is the value
  \<open>Math.random()\<close> returns for it.
\<close>

definition make_recommendation ::
  "real \<Rightarrow> real \<Rightarrow> nat \<Rightarrow> product_template \<Rightarrow> ProductRecommendation" where
  "make_recommendation priceMultiplier random index product =
     (let adjustedPrice = Math_round (basePrice product * priceMultiplier);
          priceVariation = Math_round (real_of_int adjustedPrice * 0.2)
      in \<lparr>rec_id = ''rec_'' @ show_nat (index + 1),
          rec_name = t_name product,
          rec_description = t_description product,
          price = \<lparr>price_min = adjustedPrice - priceVariation,
                    price_max = adjustedPrice + priceVariation,
                    currency = ''USD''\<rparr>,
          rec_category = t_category product,
          imageUrl = ''https://via.placeholder.com/300x200/4A90E2/FFFFFF?text=''
                     @ encodeURIComponent (t_name product),
          rec_tags = t_tags product,
          rating = 4.2 + random * 0.6\<rparr>)"

text \<open>
  The \<open>try\<close> block of \<open>generateRecommendations\<close>; \<open>rnd i\<close> is the random number
  drawn for the product at index \<open>i\<close>.  The analysis data is not read.
\<close>

definition generateRecommendations_try ::
  "(nat \<Rightarrow> real) \<Rightarrow> jsval \<Rightarrow> jsval \<Rightarrow> js_exception + ProductRecommendation list" where
  "generateRecommendations_try rnd analysisData promptContext =
     (case js_get promptContext ''budgetRange'' of
        Inl e \<Rightarrow> Inl e
      | Inr budget \<Rightarrow>
          (case calculatePriceMultiplier budget of
             Inl e \<Rightarrow> Inl e
           | Inr priceMultiplier \<Rightarrow>
               (let baseProducts = getBaseProducts
                in case js_get promptContext ''userVibe'' of
                     Inl e \<Rightarrow> Inl e
                   | Inr vibeValue \<Rightarrow>
                       (case getStyleSpecificProducts vibeValue of
                          Inl e \<Rightarrow> Inl e
                        | Inr styleProducts \<Rightarrow>
                            (let allProducts = baseProducts @ styleProducts;
                                 selectedProducts = take 8 allProducts
                             in Inr (map (\<lambda>(index, product).
                                            make_recommendation priceMultiplier (rnd index) index product)
                                       (enumerate 0 selectedProducts)))))))"

definition generateRecommendations ::
  "(nat \<Rightarrow> real) \<Rightarrow> jsval \<Rightarrow> jsval \<Rightarrow> ProductRecommendation list" where
  "generateRecommendations rnd analysisData promptContext =
     (case generateRecommendations_try rnd analysisData promptContext of
        Inr recommendations \<Rightarrow> recommendations
      | Inl e \<Rightarrow> getFallbackRecommendations)"

subsection \<open>Number of recommendations and their prices\<close>


lemma length_getBaseProducts: "length getBaseProducts = 6"
  by (simp add: getBaseProducts_def)

lemma length_getFallbackRecommendations: "length getFallbackRecommendations = 3"
  by (simp add: getFallbackRecommendations_def)

lemma generateRecommendations_try_length:
  "generateRecommendations_try rnd a ctx = Inr recs \<Longrightarrow> 6 \<le> length recs \<and> length recs \<le> 8"
  by (auto simp: generateRecommendations_try_def Let_def length_getBaseProducts
      split: sum.splits)

text \<open>
  C10.  For every analysis value and every prompt context
  \<open>generateRecommendations\<close> returns a list of 3 to 8 recommendations and never an
  error: when its \<open>try\<close> block completes, the 6 base templates plus the style
  templates, cut to 8 (so 6 to 8 items); when the block throws, the 3 fixed
  fallback recommendations.
\<close>

theorem generateRecommendations_between_3_and_8:
  "(case generateRecommendations_try rnd a ctx of
      Inr recs \<Rightarrow>
        generateRecommendations rnd a ctx = recs \<and> 6 \<le> length recs \<and> length recs \<le> 8
    | Inl e \<Rightarrow> generateRecommendations rnd a ctx = getFallbackRecommendations)
   \<and> length getFallbackRecommendations = 3
   \<and> 3 \<le> length (generateRecommendations rnd a ctx)
   \<and> length (generateRecommendations rnd a ctx) \<le> 8"
proof (cases "generateRecommendations_try rnd a ctx")
  case (Inl e)
  then show ?thesis
    by (simp add: generateRecommendations_def length_getFallbackRecommendations)
next
  case (Inr recs)
  with generateRecommendations_try_length [OF Inr] show ?thesis
    by (simp add: generateRecommendations_def length_getFallbackRecommendations)
qed

definition budget_answer :: "string \<Rightarrow> QuizResponse list" where
  "budget_answer opt = [\<lparr>questionId = ''budget-range'', selectedOptionIds = [opt], timestamp = 0\<rparr>]"

lemma budget_contexts:
  "createPromptContext (budget_answer ''budget-low'') =
     \<lparr>userVibe = Str ''Modern and functional'', colorPreference = Str ''Neutral and calming'',
      budgetRange = Str ''Under $500 - Budget-friendly essentials and DIY solutions'',
      imageDescription = []\<rparr>"
  "createPromptContext (budget_answer ''budget-mid'') =
     \<lparr>userVibe = Str ''Modern and functional'', colorPreference = Str ''Neutral and calming'',
      budgetRange = Str ''$500 - $1500 - Quality pieces with good value for money'',
      imageDescription = []\<rparr>"
  "createPromptContext (budget_answer ''budget-high'') =
     \<lparr>userVibe = Str ''Modern and functional'', colorPreference = Str ''Neutral and calming'',
      budgetRange = Str ''$1500+ - Premium furniture and complete workspace transformation'',
      imageDescription = []\<rparr>"
  by (simp_all add: createPromptContext_def budget_answer_def response_or_empty_def
      js_index_or_def js_index_def vibeMap_def colorMap_def budgetMap_def object_prototype_keys_def)

lemma budget_strings_include_500:
  "js_includes (toLowerCase ''Under $500 - Budget-friendly essentials and DIY solutions'') ''under''"
  "js_includes (toLowerCase ''$500 - $1500 - Quality pieces with good value for money'') ''500''"
  "js_includes (toLowerCase ''$1500+ - Premium furniture and complete workspace transformation'') ''500''"
  by code_simp+

lemma default_vibe_includes:
  "js_includes (toLowerCase ''Modern and functional'') ''modern''"
  "\<not> js_includes (toLowerCase ''Modern and functional'') ''cozy''"
  "\<not> js_includes (toLowerCase ''Modern and functional'') ''warm''"
  "\<not> js_includes (toLowerCase ''Modern and functional'') ''productive''"
  "\<not> js_includes (toLowerCase ''Modern and functional'') ''professional''"
  "\<not> js_includes (toLowerCase ''Modern and functional'') ''creative''"
  "\<not> js_includes (toLowerCase ''Modern and functional'') ''artistic''"
  "\<not> js_includes (toLowerCase ''Modern and functional'') ''tech''"
  "\<not> js_includes (toLowerCase ''Modern and functional'') ''gaming''"
  by code_simp+

lemma multiplier_of_budget_contexts:
  "calculatePriceMultiplier (js_of_member (budgetRange (createPromptContext (budget_answer ''budget-low'')))) = Inr 0.6"
  "calculatePriceMultiplier (js_of_member (budgetRange (createPromptContext (budget_answer ''budget-mid'')))) = Inr 0.6"
  "calculatePriceMultiplier (js_of_member (budgetRange (createPromptContext (budget_answer ''budget-high'')))) = Inr 0.6"
  by (simp_all add: budget_contexts calculatePriceMultiplier_def budget_strings_include_500)

lemma default_vibe_products:
  "getStyleSpecificProducts (JStr ''Modern and functional'') =
     Inr [\<lparr>t_category = Decor, t_name = ''Minimalist Wall Art'',
           t_description = ''Clean, geometric wall art that complements a modern workspace aesthetic.'',
           basePrice = 40, t_tags = [''modern'', ''minimalist'', ''aesthetic'']\<rparr>]"
  by (simp add: getStyleSpecificProducts_def default_vibe_includes)

lemma recommendations_of_budget_contexts:
  assumes "opt \<in> {''budget-low'', ''budget-mid'', ''budget-high''}"
  shows "generateRecommendations rnd a (context_value (createPromptContext (budget_answer opt))) =
     map (\<lambda>(index, product). make_recommendation 0.6 (rnd index) index product)
       (enumerate 0 (take 8 (getBaseProducts @
          [\<lparr>t_category = Decor, t_name = ''Minimalist Wall Art'',
            t_description = ''Clean, geometric wall art that complements a modern workspace aesthetic.'',
            basePrice = 40, t_tags = [''modern'', ''minimalist'', ''aesthetic'']\<rparr>])))"
proof -
  have m: "calculatePriceMultiplier (js_of_member (budgetRange (createPromptContext (budget_answer opt)))) = Inr 0.6"
    using assms multiplier_of_budget_contexts by auto
  have v: "userVibe (createPromptContext (budget_answer opt)) = Str ''Modern and functional''"
    using assms budget_contexts by auto
  show ?thesis
    by (simp add: generateRecommendations_def generateRecommendations_try_def context_value_def
        m v default_vibe_products Let_def)
qed

lemma chair_price_at_0_6:
  "price (make_recommendation 0.6 r 0 (hd getBaseProducts)) =
     \<lparr>price_min = 72, price_max = 108, currency = ''USD''\<rparr>"
  by (simp add: make_recommendation_def getBaseProducts_def Math_round_def Let_def)

lemma Math_round_nonneg: "0 \<le> x \<Longrightarrow> 0 \<le> Math_round x"
  by (simp add: Math_round_def)

lemma make_recommendation_min_le_max:
  assumes "0 \<le> basePrice p" "0 \<le> m"
  shows "price_min (price (make_recommendation m r i p)) \<le> price_max (price (make_recommendation m r i p))"
proof -
  have "0 \<le> Math_round (basePrice p * m)"
    using assms by (intro Math_round_nonneg) simp
  then have "0 \<le> Math_round (real_of_int (Math_round (basePrice p * m)) * 0.2)"
    by (intro Math_round_nonneg) simp
  then show ?thesis
    by (simp add: make_recommendation_def Let_def)
qed

lemma calculatePriceMultiplier_nonneg: "calculatePriceMultiplier b = Inr m \<Longrightarrow> 0 \<le> m"
  by (auto simp: calculatePriceMultiplier_def split: if_splits sum.splits)

lemma getBaseProducts_nonneg: "p \<in> set getBaseProducts \<Longrightarrow> 0 \<le> basePrice p"
  by (auto simp: getBaseProducts_def)

lemma in_cond_single: "p \<in> set (if c then [x] else []) \<longleftrightarrow> c \<and> p = x"
  by (cases c) simp_all

lemma getStyleSpecificProducts_nonneg:
  assumes "getStyleSpecificProducts v = Inr ps" "p \<in> set ps"
  shows "0 \<le> basePrice p"
proof (cases "js_truthy v")
  case False
  with assms show ?thesis by (simp add: getStyleSpecificProducts_def)
next
  case True
  with assms obtain vibe where "js_call_toLowerCase v = Inr vibe"
    by (cases "js_call_toLowerCase v") (simp_all add: getStyleSpecificProducts_def)
  with assms True show ?thesis
    unfolding getStyleSpecificProducts_def
    by (auto simp add: in_cond_single simp del: set_simps split del: if_split)
qed

lemma in_set_map_enumerate:
  assumes "r \<in> set (map (\<lambda>(i, p). f i p) (enumerate n xs))"
  obtains i p where "r = f i p" "p \<in> set xs"
proof -
  from assms obtain i p where ip: "(i, p) \<in> set (enumerate n xs)" and r: "r = f i p"
    by auto
  from ip have "p \<in> set xs"
    by (metis enumerate_eq_zip in_set_zipE)
  with r show ?thesis
    by (rule that)
qed

lemma generateRecommendations_min_le_max:
  assumes "r \<in> set (generateRecommendations rnd a ctx)"
  shows "price_min (price r) \<le> price_max (price r)"
proof (cases "generateRecommendations_try rnd a ctx")
  case (Inl e)
  with assms show ?thesis
    by (auto simp: generateRecommendations_def getFallbackRecommendations_def)
next
  case (Inr recs)
  then obtain b m v ps where
    m: "calculatePriceMultiplier b = Inr m" and ps: "getStyleSpecificProducts v = Inr ps" and
    recs: "recs = map (\<lambda>(index, product). make_recommendation m (rnd index) index product)
                    (enumerate 0 (take 8 (getBaseProducts @ ps)))"
    by (auto simp: generateRecommendations_try_def Let_def split: sum.splits)
  from assms Inr recs have
    "r \<in> set (map (\<lambda>(index, product). make_recommendation m (rnd index) index product)
                    (enumerate 0 (take 8 (getBaseProducts @ ps))))"
    by (simp add: generateRecommendations_def)
  then obtain i p where
    r: "r = make_recommendation m (rnd i) i p" and p: "p \<in> set (take 8 (getBaseProducts @ ps))"
    by (rule in_set_map_enumerate)
  from p have "p \<in> set (getBaseProducts @ ps)"
    by (rule in_set_takeD)
  then have "p \<in> set getBaseProducts \<or> p \<in> set ps"
    by simp
  then have "0 \<le> basePrice p"
    using getBaseProducts_nonneg getStyleSpecificProducts_nonneg [OF ps] by blast
  then show ?thesis
    unfolding r using calculatePriceMultiplier_nonneg [OF m]
    by (rule make_recommendation_min_le_max)
qed

text \<open>
  C3.  Prices are meant to rise with the budget tier.  \<open>calculatePriceMultiplier\<close>
  tests for the substring "500" before it tests for "1500": the three budget
  descriptions that \<open>createPromptContext\<close> produces ("Under $500 ...",
  "$500 - $1500 ...", "$1500+ ...") all contain "500" or "under", so the low, the
  mid and the high tier all get the multiplier 0.6 and the same prices; the office
  chair (base price 150) costs 72 to 108 in each.  (That \<open>price_min\<close> is at most
  \<open>price_max\<close> holds, see \<open>generateRecommendations_min_le_max\<close>.)
\<close>

theorem budget_tiers_priced_alike:
  "calculatePriceMultiplier (js_of_member (budgetRange (createPromptContext (budget_answer ''budget-low'')))) = Inr 0.6
   \<and> calculatePriceMultiplier (js_of_member (budgetRange (createPromptContext (budget_answer ''budget-mid'')))) = Inr 0.6
   \<and> calculatePriceMultiplier (js_of_member (budgetRange (createPromptContext (budget_answer ''budget-high'')))) = Inr 0.6
   \<and> map price (generateRecommendations rnd a (context_value (createPromptContext (budget_answer ''budget-low''))))
       = map price (generateRecommendations rnd a (context_value (createPromptContext (budget_answer ''budget-mid''))))
   \<and> map price (generateRecommendations rnd a (context_value (createPromptContext (budget_answer ''budget-mid''))))
       = map price (generateRecommendations rnd a (context_value (createPromptContext (budget_answer ''budget-high''))))
   \<and> price (hd (generateRecommendations rnd a (context_value (createPromptContext (budget_answer ''budget-mid'')))))
       = \<lparr>price_min = 72, price_max = 108, currency = ''USD''\<rparr>"
proof -
  let ?ctx = "\<lambda>opt. context_value (createPromptContext (budget_answer opt))"
  have low_mid: "generateRecommendations rnd a (?ctx ''budget-low'')
      = generateRecommendations rnd a (?ctx ''budget-mid'')"
    by (simp add: recommendations_of_budget_contexts)
  have mid_high: "generateRecommendations rnd a (?ctx ''budget-mid'')
      = generateRecommendations rnd a (?ctx ''budget-high'')"
    by (simp add: recommendations_of_budget_contexts)
  have hd_eq: "hd (generateRecommendations rnd a (?ctx ''budget-mid''))
      = make_recommendation 0.6 (rnd 0) 0 (hd getBaseProducts)"
    by (simp add: recommendations_of_budget_contexts getBaseProducts_def enumerate_eq_zip upt_rec)
  have chair: "price (hd (generateRecommendations rnd a (?ctx ''budget-mid'')))
      = \<lparr>price_min = 72, price_max = 108, currency = ''USD''\<rparr>"
    by (simp only: hd_eq chair_price_at_0_6)
  show ?thesis
    using multiplier_of_budget_contexts low_mid mid_high chair
    by (intro conjI) simp_all
qed

section \<open>Ergonomic insight engine\<close>

record ErgonomicInsight =
  category :: member
  status :: member
  title :: member
  description :: jsval
  recommendation :: jsval

text \<open>
  What the engine takes from outside: the value \<open>Math.random()\<close> returns while the
  evaluation entry, or the priority, at an index is processed, and the outcome of
  the comparison \<open>v > 20\<close> for a value \<open>v\<close> that is not a number (JavaScript
  coerces it first, which can throw).
\<close>

record js_host =
  item_random :: "nat \<Rightarrow> real"
  priority_random :: "nat \<Rightarrow> real"
  coerced_gt_20 :: "jsval \<Rightarrow> js_exception + bool"

definition categoryMap :: "(string \<times> string) list" where
  "categoryMap =
     [(''desk-height'', ''desk-height''),
      (''desk_height'', ''desk-height''),
      (''deskheight'', ''desk-height''),
      (''chair-posture'', ''chair-posture''),
      (''chair_posture'', ''chair-posture''),
      (''chairposture'', ''chair-posture''),
      (''chair'', ''chair-posture''),
      (''posture'', ''chair-posture''),
      (''lighting'', ''lighting''),
      (''light'', ''lighting''),
      (''illumination'', ''lighting''),
      (''screen-position'', ''screen-position''),
      (''screen_position'', ''screen-position''),
      (''screenposition'', ''screen-position''),
      (''monitor'', ''screen-position''),
      (''display'', ''screen-position''),
      (''organization'', ''organization''),
      (''organisation'', ''organization''),
      (''clutter'', ''organization''),
      (''storage'', ''organization'')]"

text \<open>\<open>categoryMap[category.toLowerCase()] || null\<close>; \<open>None\<close> is \<open>null\<close>.\<close>

definition normalizeCategory :: "string \<Rightarrow> member option" where
  "normalizeCategory cat =
     (case js_index categoryMap (toLowerCase cat) of
        Some v \<Rightarrow> if member_truthy v then Some v else None
      | None \<Rightarrow> None)"

text \<open>
  The nested tables \<open>titles\<close> and \<open>recommendations\<close> are read with the string form
  of the category, and what that gives with the string form of the status.  A
  read of a table finds an own property, or under a property name of
  \<open>Object.prototype\<close> the built-in object of that name, or nothing.
\<close>

datatype 'a lookup = Own 'a | Builtin string | Absent

definition js_lookup :: "(string \<times> 'a) list \<Rightarrow> string \<Rightarrow> 'a lookup" where
  "js_lookup tbl k =
     (case map_of tbl k of
        Some v \<Rightarrow> Own v
      | None \<Rightarrow> if k \<in> set object_prototype_keys then Builtin k else Absent)"

text \<open>
  When the first read gives a built-in object, the second read is from that
  object, under the status.  The statuses the engine passes are the canonical
  names and the string forms of built-in objects, and no built-in object has a
  property of such a name: that read gives \<open>undefined\<close>.
\<close>

definition titles :: "(string \<times> (string \<times> string) list) list" where
  "titles =
     [(''desk-height'',
       [(''good'', ''Desk Height Optimal''),
        (''needs-improvement'', ''Desk Height Adjustment Needed''),
        (''poor'', ''Desk Height Requires Attention'')]),
      (''chair-posture'',
       [(''good'', ''Chair & Posture Excellent''),
        (''needs-improvement'', ''Chair Setup Needs Improvement''),
        (''poor'', ''Chair & Posture Issues Detected'')]),
      (''lighting'',
       [(''good'', ''Lighting Conditions Good''),
        (''needs-improvement'', ''Lighting Could Be Enhanced''),
        (''poor'', ''Lighting Needs Immediate Attention'')]),
      (''screen-position'',
       [(''good'', ''Screen Position Optimal''),
        (''needs-improvement'', ''Screen Position Adjustment Needed''),
        (''poor'', ''Screen Position Problematic'')]),
      (''organization'',
       [(''good'', ''Workspace Well Organized''),
        (''needs-improvement'', ''Organization Opportunities''),
        (''poor'', ''Workspace Needs Organization'')])]"

text \<open>\<open>titles[category]?.[status] || `${category} Assessment`\<close>\<close>

definition generateTitle :: "member \<Rightarrow> member \<Rightarrow> member" where
  "generateTitle cat st =
     (let assessment = Str (member_to_string cat @ '' Assessment'')
      in case js_lookup titles (member_to_string cat) of
           Own byStatus \<Rightarrow> js_index_or byStatus (member_to_string st) assessment
         | Builtin k \<Rightarrow> assessment
         | Absent \<Rightarrow> assessment)"

definition recommendations :: "(string \<times> (string \<times> string list) list) list" where
  "recommendations =
     [(''desk-height'',
       [(''needs-improvement'',
         [''Adjust desk height so elbows are at 90'' @ [CHR 0xB0] @ '' when typing'',
          ''Consider a height-adjustable desk or keyboard tray'',
          ''Ensure feet are flat on floor or footrest'']),
        (''poor'',
         [''Immediately adjust desk height - current setup may cause strain'',
          ''Use a standing desk converter or adjustable keyboard tray'',
          ''Consider ergonomic assessment for proper measurements''])]),
      (''chair-posture'',
       [(''needs-improvement'',
         [''Adjust chair height and back angle for better lumbar support'',
          ''Ensure chair back supports natural spine curve'',
          ''Consider ergonomic chair with adjustable features'']),
        (''poor'',
         [''Replace chair or add lumbar support immediately'',
          ''Adjust chair settings: height, back angle, armrests'',
          ''Take regular breaks to prevent long-term strain''])]),
      (''lighting'',
       [(''needs-improvement'',
         [''Add task lighting to reduce eye strain'',
          ''Position light source to minimize screen glare'',
          ''Consider adjustable desk lamp with warm light'']),
        (''poor'',
         [''Improve lighting immediately - current setup strains eyes'',
          ''Add multiple light sources for even illumination'',
          ''Position screen perpendicular to windows to reduce glare''])]),
      (''screen-position'',
       [(''needs-improvement'',
         [''Adjust monitor height so top is at eye level'',
          ''Position screen 50-70cm away from eyes'',
          ''Tilt screen slightly backward (10-20'' @ [CHR 0xB0] @ '')'']),
        (''poor'',
         [''Reposition screen immediately to prevent neck strain'',
          ''Use monitor arm or stand for proper height adjustment'',
          ''Ensure screen is directly in front, not to the side''])]),
      (''organization'',
       [(''needs-improvement'',
         [''Add storage solutions to reduce desktop clutter'',
          ''Organize frequently used items within arm's reach'',
          ''Create designated spaces for different work materials'']),
        (''poor'',
         [''Declutter workspace immediately for better focus'',
          ''Implement filing system for papers and supplies'',
          ''Remove unnecessary items from work surface''])])]"

text \<open>\<open>xs[i]\<close> for an integer index: \<open>undefined\<close> (here \<open>None\<close>) outside the array.\<close>

definition js_nth :: "'a list \<Rightarrow> int \<Rightarrow> 'a option" where
  "js_nth xs i = (if 0 \<le> i \<and> i < int (length xs) then Some (xs ! nat i) else None)"

text \<open>
  \<open>random\<close> is the value of \<open>Math.random()\<close>.  \<open>categoryRecs\<close> is falsy only when
  the table has nothing under the category.  When \<open>categoryRecs[status]\<close> is a
  built-in object, \<open>statusRecs\<close> is that object, which has no element under any
  index, so \<open>selectedRec\<close> is \<open>undefined\<close>; likewise when \<open>categoryRecs\<close> itself is a
  built-in object, where \<open>statusRecs\<close> is the empty array.
\<close>

definition generateRecommendation :: "real \<Rightarrow> member \<Rightarrow> member \<Rightarrow> string" where
  "generateRecommendation random cat st =
     (case js_lookup recommendations (member_to_string cat) of
        Absent \<Rightarrow> ''Maintain current setup and monitor for changes''
      | Builtin k \<Rightarrow>
          if st = Str ''good'' then ''Maintain current setup and monitor for changes''
          else ''Consider ergonomic improvements for better comfort''
      | Own categoryRecs \<Rightarrow>
          if st = Str ''good'' then ''Maintain current setup and monitor for changes''
          else
            (case js_lookup categoryRecs (member_to_string st) of
               Own statusRecs \<Rightarrow>
                 (case js_nth statusRecs (Math_floor (random * real (length statusRecs))) of
                    Some selectedRec \<Rightarrow>
                      if selectedRec \<noteq> [] then selectedRec
                      else ''Consider ergonomic improvements for better comfort''
                  | None \<Rightarrow> ''Consider ergonomic improvements for better comfort'')
             | Builtin k \<Rightarrow> ''Consider ergonomic improvements for better comfort''
             | Absent \<Rightarrow> ''Consider ergonomic improvements for better comfort''))"

text \<open>
  \<open>baseRecommendation && baseRecommendation.length > 20\<close>: a string or an array
  has its length; an object has the \<open>length\<close> it owns, compared as a number when
  it is one (\<open>null\<close> and booleans count as 0 and 1) and after coercion when it is a
  string, an array or an object; other values have no \<open>length\<close> above 20.
\<close>

definition long_enough :: "js_host \<Rightarrow> jsval \<Rightarrow> js_exception + bool" where
  "long_enough host v =
     (if \<not> js_truthy v then Inr False
      else case v of
             JStr s \<Rightarrow> Inr (length s > 20)
           | JArr xs \<Rightarrow> Inr (length xs > 20)
           | JObj kvs \<Rightarrow>
               (case map_of kvs ''length'' of
                  None \<Rightarrow> Inr False
                | Some (JNum x) \<Rightarrow> Inr (x > 20)
                | Some JUndefined \<Rightarrow> Inr False
                | Some JNull \<Rightarrow> Inr False
                | Some (JBool b) \<Rightarrow> Inr False
                | Some w \<Rightarrow> coerced_gt_20 host w)
           | _ \<Rightarrow> Inr False)"

definition enhanceRecommendation ::
  "js_host \<Rightarrow> real \<Rightarrow> jsval \<Rightarrow> member \<Rightarrow> member \<Rightarrow> js_exception + jsval" where
  "enhanceRecommendation host random baseRecommendation cat st =
     (case long_enough host baseRecommendation of
        Inl e \<Rightarrow> Inl e
      | Inr True \<Rightarrow> Inr baseRecommendation
      | Inr False \<Rightarrow> Inr (JStr (generateRecommendation random cat st)))"

text \<open>\<open>a || b\<close> on values.\<close>

definition js_or :: "jsval \<Rightarrow> jsval \<Rightarrow> jsval" where
  "js_or a b = (if js_truthy a then a else b)"

definition property :: "jsval \<Rightarrow> string \<Rightarrow> jsval" where
  "property v name = (case js_get v name of Inr x \<Rightarrow> x | Inl e \<Rightarrow> JUndefined)"

text \<open>
  The \<open>try\<close> block of \<open>processErgonomicItem\<close> for the entry at \<open>index\<close>; \<open>Inr None\<close>
  is the early \<open>return null\<close>.  \<open>toLowerCase\<close> is called on the category and on the
  status: a value that is no string has no such method, and the call throws.
\<close>

definition processErgonomicItem_try ::
  "js_host \<Rightarrow> nat \<Rightarrow> jsval \<Rightarrow> ErgonomicAnalysisConfig \<Rightarrow> js_exception + ErgonomicInsight option" where
  "processErgonomicItem_try host index item config =
     (case js_get item ''category'' of
        Inl e \<Rightarrow> Inl e
      | Inr (JStr c) \<Rightarrow>
          (case normalizeCategory c of
             None \<Rightarrow> Inr None
           | Some cat \<Rightarrow>
               (case property item ''status'' of
                  JStr s \<Rightarrow>
                    (let st = normalizeStatus s (strictnessLevel config);
                         ttl = generateTitle cat st;
                         descr =
                           js_or (property item ''observation'')
                             (js_or (property item ''description'')
                                (JStr ''Assessment in progress''))
                     in case enhanceRecommendation host (item_random host index)
                               (property item ''recommendation'') cat st of
                          Inl e \<Rightarrow> Inl e
                        | Inr r \<Rightarrow>
                            Inr (Some \<lparr>category = cat, status = st, title = ttl,
                                        description = descr, recommendation = r\<rparr>))
                | _ \<Rightarrow> Inl TypeError))
      | Inr _ \<Rightarrow> Inl TypeError)"

definition processErgonomicItem ::
  "js_host \<Rightarrow> nat \<Rightarrow> jsval \<Rightarrow> ErgonomicAnalysisConfig \<Rightarrow> ErgonomicInsight option" where
  "processErgonomicItem host index item config =
     (case processErgonomicItem_try host index item config of
        Inr r \<Rightarrow> r
      | Inl e \<Rightarrow> None)"

definition categoryMappings :: "(string \<times> string) list" where
  "categoryMappings =
     [(''ergonomic'', ''chair-posture''),
      (''posture'', ''chair-posture''),
      (''chair'', ''chair-posture''),
      (''desk'', ''desk-height''),
      (''height'', ''desk-height''),
      (''light'', ''lighting''),
      (''illumination'', ''lighting''),
      (''screen'', ''screen-position''),
      (''monitor'', ''screen-position''),
      (''display'', ''screen-position''),
      (''organization'', ''organization''),
      (''clutter'', ''organization''),
      (''storage'', ''organization'')]"

text \<open>The \<open>for ... of Object.entries(categoryMappings)\<close> loop: the first keyword that occurs.\<close>

fun detect_category :: "string \<Rightarrow> (string \<times> string) list \<Rightarrow> string option" where
  "detect_category lowerImprovement [] = None"
| "detect_category lowerImprovement ((keyword, cat) # rest) =
     (if js_includes lowerImprovement keyword then Some cat
      else detect_category lowerImprovement rest)"

definition parseImprovement ::
  "js_host \<Rightarrow> jsval \<Rightarrow> nat \<Rightarrow> js_exception + ErgonomicInsight option" where
  "parseImprovement host improvement priority =
     (case js_call_toLowerCase improvement of
        Inl e \<Rightarrow> Inl e
      | Inr lowerImprovement \<Rightarrow>
          (case detect_category lowerImprovement categoryMappings of
             None \<Rightarrow> Inr None
           | Some detectedCategory \<Rightarrow>
               (let st = (if priority = 0 then ''poor''
                          else if priority = 1 then ''needs-improvement''
                          else ''needs-improvement'')
                in Inr (Some \<lparr>category = Str detectedCategory,
                              status = Str st,
                              title = generateTitle (Str detectedCategory) (Str st),
                              description = improvement,
                              recommendation =
                                JStr (generateRecommendation (priority_random host priority)
                                        (Str detectedCategory) (Str st))\<rparr>))))"

text \<open>
  The \<open>forEach\<close> of \<open>extractInsightsFromPriorities\<close>, from index \<open>index\<close> on: an
  exception at one priority ends the loop and leaves the function.
\<close>

fun extractInsightsFromPriorities ::
  "js_host \<Rightarrow> nat \<Rightarrow> jsval list \<Rightarrow> js_exception + ErgonomicInsight list" where
  "extractInsightsFromPriorities host index [] = Inr []"
| "extractInsightsFromPriorities host index (priority # rest) =
     (case parseImprovement host priority index of
        Inl e \<Rightarrow> Inl e
      | Inr found \<Rightarrow>
          (case extractInsightsFromPriorities host (index + 1) rest of
             Inl e \<Rightarrow> Inl e
           | Inr others \<Rightarrow>
               Inr ((case found of None \<Rightarrow> [] | Some insight \<Rightarrow> [insight]) @ others)))"

definition allCategories :: "string list" where
  "allCategories =
     [''desk-height'', ''chair-posture'', ''lighting'', ''screen-position'', ''organization'']"

definition getMissingCategories :: "member list \<Rightarrow> string list" where
  "getMissingCategories coveredCategories =
     filter (\<lambda>c. Str c \<notin> set coveredCategories) allCategories"

definition generateDefaultInsight :: "string \<Rightarrow> ErgonomicInsight" where
  "generateDefaultInsight cat =
     \<lparr>category = Str cat,
      status = Str ''good'',
      title = generateTitle (Str cat) (Str ''good''),
      description = JStr ''No specific issues identified in this area.'',
      recommendation = JUndefined\<rparr>"

text \<open>\<open>order.indexOf(v)\<close>: the position of the string, \<open>-1\<close> when \<open>v\<close> is not in the array.\<close>

fun index_from :: "int \<Rightarrow> string list \<Rightarrow> string \<Rightarrow> int" where
  "index_from i [] s = - 1"
| "index_from i (x # xs) s = (if x = s then i else index_from (i + 1) xs s)"

fun indexOf :: "string list \<Rightarrow> member \<Rightarrow> int" where
  "indexOf order (Str s) = index_from 0 order s"
| "indexOf order (Inherited k) = - 1"

definition compare_insights :: "ErgonomicInsight \<Rightarrow> ErgonomicInsight \<Rightarrow> int" where
  "compare_insights a b =
     (let priorityOrder = [''poor'', ''needs-improvement'', ''good''];
          categoryOrder =
            [''chair-posture'', ''desk-height'', ''screen-position'', ''lighting'', ''organization''];
          statusDiff = indexOf priorityOrder (status a) - indexOf priorityOrder (status b)
      in if statusDiff \<noteq> 0 then statusDiff
         else indexOf categoryOrder (category a) - indexOf categoryOrder (category b))"

definition prioritizeInsights :: "ErgonomicInsight list \<Rightarrow> ErgonomicInsight list" where
  "prioritizeInsights insights = js_sort compare_insights insights"

text \<open>The insights of the evaluation entries, each processed with its index.\<close>

definition evaluation_insights ::
  "js_host \<Rightarrow> jsval list \<Rightarrow> ErgonomicAnalysisConfig \<Rightarrow> ErgonomicInsight list" where
  "evaluation_insights host items config =
     concat (map (\<lambda>(index, item).
                    case processErgonomicItem host index item config of
                      None \<Rightarrow> []
                    | Some insight \<Rightarrow> [insight])
               (enumerate 0 items))"

text \<open>The \<open>try\<close> block of \<open>analyzeErgonomics\<close>.\<close>

definition analyzeErgonomics_try ::
  "js_host \<Rightarrow> jsval \<Rightarrow> ErgonomicAnalysisConfig \<Rightarrow> js_exception + ErgonomicInsight list" where
  "analyzeErgonomics_try host analysisData config =
     (case js_get analysisData ''ergonomic_evaluation'' of
        Inl e \<Rightarrow> Inl e
      | Inr evaluation \<Rightarrow>
          (let fromEvaluation =
                 (case evaluation of
                    JArr items \<Rightarrow> evaluation_insights host items config
                  | _ \<Rightarrow> [])
           in case (case property analysisData ''improvement_priorities'' of
                      JArr priorities \<Rightarrow> extractInsightsFromPriorities host 0 priorities
                    | _ \<Rightarrow> Inr []) of
                Inl e \<Rightarrow> Inl e
              | Inr additionalInsights \<Rightarrow>
                  (let insights = fromEvaluation @ additionalInsights;
                       coveredCategories = map category insights;
                       missingCategories = getMissingCategories coveredCategories
                   in Inr (prioritizeInsights
                             (insights @ map generateDefaultInsight missingCategories)))))"

definition analyzeErgonomics ::
  "js_host \<Rightarrow> jsval \<Rightarrow> ErgonomicAnalysisConfig \<Rightarrow> ErgonomicInsight list" where
  "analyzeErgonomics host analysisData config =
     (case analyzeErgonomics_try host analysisData config of
        Inr insights \<Rightarrow> insights
      | Inl e \<Rightarrow> [])"

subsection \<open>Coverage of the canonical categories\<close>






definition own_name :: "jsval \<Rightarrow> bool" where
  "own_name v =
     (case v of JStr s \<Rightarrow> toLowerCase s \<notin> set object_prototype_keys | _ \<Rightarrow> True)"



























subsection \<open>The names that reach a built-in object\<close>

text \<open>
  The tables are read under the lower-cased category or status, and lower-casing
  leaves no capital letter.  Of the property names of \<open>Object.prototype\<close> it can
  therefore give only "constructor" and "__proto__": \<open>own_name\<close> excludes the strings
  that spell one of these two in any mix of upper and lower case.
\<close>

lemma js_lower_char_no_capital:
  "\<not> (65 \<le> (of_char (js_lower_char c) :: nat) \<and> (of_char (js_lower_char c) :: nat) \<le> 90)"
  by (simp add: of_char_js_lower_char)

lemma toLowerCase_no_capital:
  assumes "c \<in> set k" "65 \<le> (of_char c :: nat)" "(of_char c :: nat) \<le> 90"
  shows "toLowerCase s \<noteq> k"
proof
  assume "toLowerCase s = k"
  with assms(1) obtain d where "js_lower_char d = c"
    by (auto simp: toLowerCase_def)
  with js_lower_char_no_capital [of d] assms(2,3) show False
    by simp
qed

lemma lower_case_prototype_keys:
  "toLowerCase s \<in> set object_prototype_keys
     \<longleftrightarrow> toLowerCase s = ''constructor'' \<or> toLowerCase s = ''__proto__''"
proof -
  have "toLowerCase s \<noteq> ''hasOwnProperty''"
    by (rule toLowerCase_no_capital [of "CHR ''O''"]) simp_all
  moreover have "toLowerCase s \<noteq> ''isPrototypeOf''"
    by (rule toLowerCase_no_capital [of "CHR ''P''"]) simp_all
  moreover have "toLowerCase s \<noteq> ''propertyIsEnumerable''"
    by (rule toLowerCase_no_capital [of "CHR ''I''"]) simp_all
  moreover have "toLowerCase s \<noteq> ''toLocaleString''"
    by (rule toLowerCase_no_capital [of "CHR ''L''"]) simp_all
  moreover have "toLowerCase s \<noteq> ''toString''"
    by (rule toLowerCase_no_capital [of "CHR ''S''"]) simp_all
  moreover have "toLowerCase s \<noteq> ''valueOf''"
    by (rule toLowerCase_no_capital [of "CHR ''O''"]) simp_all
  moreover have "toLowerCase s \<noteq> ''__defineGetter__''"
    by (rule toLowerCase_no_capital [of "CHR ''G''"]) simp_all
  moreover have "toLowerCase s \<noteq> ''__defineSetter__''"
    by (rule toLowerCase_no_capital [of "CHR ''S''"]) simp_all
  moreover have "toLowerCase s \<noteq> ''__lookupGetter__''"
    by (rule toLowerCase_no_capital [of "CHR ''G''"]) simp_all
  moreover have "toLowerCase s \<noteq> ''__lookupSetter__''"
    by (rule toLowerCase_no_capital [of "CHR ''S''"]) simp_all
  ultimately show ?thesis
    by (auto simp: object_prototype_keys_def)
qed

lemma own_name_spelling:
  "own_name (JStr s) \<longleftrightarrow> toLowerCase s \<noteq> ''constructor'' \<and> toLowerCase s \<noteq> ''__proto__''"
  by (simp add: own_name_def lower_case_prototype_keys)

subsection \<open>The path through the \<open>catch\<close>\<close>






definition fixed_host :: js_host where
  "fixed_host =
     \<lparr>item_random = (\<lambda>i. 0), priority_random = (\<lambda>i. 0), coerced_gt_20 = (\<lambda>v. Inr False)\<rparr>"

definition standard_config :: ErgonomicAnalysisConfig where
  "standard_config =
     \<lparr>enableDetailedMetrics = True, includePostureAnalysis = True, strictnessLevel = Standard\<rparr>"






text \<open>
  Outside the hypotheses: a category spelled "constructor" finds the built-in of
  that name in the lookup table, and the insight made of it has no canonical
  category.
\<close>

lemma analyzeErgonomics_inherited_category:
  "map category
     (analyzeErgonomics fixed_host
        (JObj [(''ergonomic_evaluation'',
                JArr [JObj [(''category'', JStr ''Constructor''), (''status'', JStr ''good'')]])])
        standard_config) =
     [Inherited ''constructor'', Str ''chair-posture'', Str ''desk-height'',
      Str ''screen-position'', Str ''lighting'', Str ''organization'']"
  by code_simp

section \<open>Colour palette extraction\<close>

text \<open>
  The pixel data come from \<open>simulatePixelExtraction\<close>: 1000 pixels, each one of six
  sample colours with one of five variations added to every channel and clamped
  to 0..255.  Pixel \<open>i\<close> takes four values of \<open>Math.random()\<close> in turn, \<open>rnd (4 * i)\<close>
  to \<open>rnd (4 * i + 3)\<close>.  \<open>Math.random()\<close> lies in [0, 1), which keeps both array
  indices in range; for a value outside that range the model gives no pixel.
\<close>

definition sampleColors :: "pixel list" where
  "sampleColors =
     [(240, 240, 235), (200, 195, 185), (150, 145, 135),
      (100, 95, 85), (180, 160, 140), (120, 140, 160)]"

definition variation :: "real list" where
  "variation = [- 10, - 5, 0, 5, 10]"

definition vary_channel :: "real \<Rightarrow> real \<Rightarrow> real option" where
  "vary_channel channel random =
     map_option (\<lambda>v. max 0 (min 255 (channel + v)))
       (js_nth variation (Math_floor (random * real (length variation))))"

definition simulated_pixel :: "(nat \<Rightarrow> real) \<Rightarrow> nat \<Rightarrow> pixel option" where
  "simulated_pixel rnd i =
     (case js_nth sampleColors (Math_floor (rnd (4 * i) * real (length sampleColors))) of
        None \<Rightarrow> None
      | Some (r, g, b) \<Rightarrow>
          (case (vary_channel r (rnd (4 * i + 1)), vary_channel g (rnd (4 * i + 2)),
                 vary_channel b (rnd (4 * i + 3))) of
             (Some r', Some g', Some b') \<Rightarrow> Some (r', g', b')
           | _ \<Rightarrow> None))"

definition simulatePixelExtraction :: "(nat \<Rightarrow> real) \<Rightarrow> pixel list option" where
  "simulatePixelExtraction rnd = those (map (simulated_pixel rnd) [0..<1000])"

definition extractPixelData :: "(nat \<Rightarrow> real) \<Rightarrow> pixel list option" where
  "extractPixelData rnd = simulatePixelExtraction rnd"

definition generateDescription :: "ExtractedColor list \<Rightarrow> mood \<Rightarrow> string" where
  "generateDescription cs m =
     (let colorCount = show_nat (length cs)
      in case m of
           Focus \<Rightarrow>
             ''Neutral color scheme with '' @ colorCount
             @ '' balanced tones that promote concentration and minimize distractions''
         | Creativity \<Rightarrow>
             ''Inspiring palette of '' @ colorCount
             @ '' warm colors that stimulate creative thinking and innovation''
         | Calm \<Rightarrow>
             ''Soothing combination of '' @ colorCount
             @ '' gentle colors that create a peaceful and relaxing atmosphere''
         | Energizing \<Rightarrow>
             ''Vibrant selection of '' @ colorCount
             @ '' bright colors that boost energy and motivation'')"

definition createFallbackPalette :: "nat \<Rightarrow> ColorPalette" where
  "createFallbackPalette now =
     \<lparr>palette_id = ''fallback_'' @ show_nat now,
      palette_name = ''Neutral Workspace'',
      colors = [''#F5F5F0'', ''#E8E4DD'', ''#D4CFC4'', ''#A8A39A''],
      palette_mood = Focus,
      palette_description = ''A calming neutral palette perfect for focused work sessions''\<rparr>"

text \<open>
  The options a caller passes are partial; \<open>{ ...DEFAULT_OPTIONS, ...options }\<close>
  fills the rest.
\<close>

record partial_options =
  maxColors_opt :: "nat option"
  quality_opt :: "nat option"
  ignoreWhite_opt :: "bool option"
  ignoreBlack_opt :: "bool option"

definition merge_options :: "partial_options \<Rightarrow> ColorExtractionOptions" where
  "merge_options options =
     \<lparr>maxColors = (case maxColors_opt options of None \<Rightarrow> maxColors DEFAULT_OPTIONS | Some v \<Rightarrow> v),
      quality = (case quality_opt options of None \<Rightarrow> quality DEFAULT_OPTIONS | Some v \<Rightarrow> v),
      ignoreWhite =
        (case ignoreWhite_opt options of None \<Rightarrow> ignoreWhite DEFAULT_OPTIONS | Some v \<Rightarrow> v),
      ignoreBlack =
        (case ignoreBlack_opt options of None \<Rightarrow> ignoreBlack DEFAULT_OPTIONS | Some v \<Rightarrow> v)\<rparr>"

text \<open>
  The outside of one extraction: whether the image manipulator resizes the photo
  or rejects, the values of \<open>Math.random()\<close>, the reading of \<open>Date.now()\<close>, and the
  rounding of the machine arithmetic in \<open>determineMood\<close>.
\<close>

record palette_env =
  resize_ok :: bool
  random :: "nat \<Rightarrow> real"
  now :: nat
  to_double :: "real \<Rightarrow> real"

text \<open>The \<open>try\<close> block of \<open>extractColorPalette\<close>; \<open>None\<close> when a step throws.\<close>

definition extractColorPalette_try :: "palette_env \<Rightarrow> partial_options \<Rightarrow> ColorPalette option" where
  "extractColorPalette_try env options =
     (let config = merge_options options
      in if \<not> resize_ok env then None
         else case extractPixelData (random env) of
                None \<Rightarrow> None
              | Some pixelData \<Rightarrow>
                  (let dominantColors = extractDominantColors pixelData config;
                       hexColors = map hex dominantColors;
                       m = determineMood (to_double env) dominantColors;
                       descr = generateDescription dominantColors m
                   in Some \<lparr>palette_id = ''extracted_'' @ show_nat (now env),
                            palette_name = ''Workspace Colors'',
                            colors = hexColors,
                            palette_mood = m,
                            palette_description = descr\<rparr>))"

definition extractColorPalette :: "palette_env \<Rightarrow> partial_options \<Rightarrow> ColorPalette" where
  "extractColorPalette env options =
     (case extractColorPalette_try env options of
        Some palette \<Rightarrow> palette
      | None \<Rightarrow> createFallbackPalette (now env))"

subsection \<open>When no colour cluster survives\<close>


lemma extractDominantColors_nothing_kept:
  "filter (keep_pixel options) ps = [] \<Longrightarrow> extractDominantColors ps options = []"
  by (simp add: extractDominantColors_def groupSimilarColors_def js_sort_def)

lemma show_nat_0: "show_nat 0 = ''0''"
  by code_simp

lemma extractColorPalette_no_clusters:
  assumes "resize_ok env" "extractPixelData (random env) = Some pixelData"
    "extractDominantColors pixelData (merge_options options) = []"
  shows "extractColorPalette env options =
           \<lparr>palette_id = ''extracted_'' @ show_nat (now env),
            palette_name = ''Workspace Colors'',
            colors = [],
            palette_mood = Focus,
            palette_description = ''Neutral color scheme with 0 balanced tones that promote concentration and minimize distractions''\<rparr>"
  using assms
  by (simp add: extractColorPalette_def extractColorPalette_try_def Let_def determineMood_def
      generateDescription_def show_nat_0)

lemma extractColorPalette_step_throws:
  "extractColorPalette_try env options = None \<Longrightarrow>
   extractColorPalette env options = createFallbackPalette (now env)"
  by (simp add: extractColorPalette_def)

lemma those_map_Some:
  "(\<And>x. x \<in> set xs \<Longrightarrow> f x = Some (g x)) \<Longrightarrow> those (map f xs) = Some (map g xs)"
  by (induction xs) simp_all

definition near_white_draws :: "nat \<Rightarrow> real" where
  "near_white_draws i = (if i mod 4 = 0 then 0 else 0.9)"

lemma vary_channel_top: "vary_channel 240 0.9 = Some 250" "vary_channel 235 0.9 = Some 245"
  by (simp_all add: vary_channel_def js_nth_def variation_def Math_floor_def)

lemma near_white_pixel: "simulated_pixel near_white_draws i = Some (250, 250, 245)"
proof -
  have d: "near_white_draws (4 * i) = 0" "near_white_draws (4 * i + 1) = 0.9"
    "near_white_draws (4 * i + 2) = 0.9" "near_white_draws (4 * i + 3) = 0.9"
    "near_white_draws (Suc (4 * i)) = 0.9" "near_white_draws (Suc (Suc (4 * i))) = 0.9"
    by (simp_all add: near_white_draws_def) presburger+
  show ?thesis
    by (simp add: simulated_pixel_def d js_nth_def sampleColors_def Math_floor_def vary_channel_top)
qed

lemma near_white_pixels:
  "extractPixelData near_white_draws = Some (map (\<lambda>i. (250, 250, 245)) [0..<1000])"
  unfolding extractPixelData_def simulatePixelExtraction_def
  by (rule those_map_Some) (rule near_white_pixel)

lemma linear_channel_lower:
  assumes "10.1 \<le> c" "c \<le> 255"
  shows "((c / 255 + 0.055) / 1.055) ^ 3 \<le> linear_channel c"
proof -
  let ?x = "(c / 255 + 0.055) / 1.055"
  have x: "0 \<le> ?x" "?x \<le> 1"
    using assms by (simp_all add: field_simps)
  have "?x powr 3 \<le> ?x powr 2.4"
    using x by (intro powr_mono') simp_all
  moreover have "?x powr 3 = ?x ^ 3"
    using x(1) by (rule powr_numeral)
  moreover have "linear_channel c = ?x powr 2.4"
    using assms by (simp add: linear_channel_def Let_def)
  ultimately show ?thesis by simp
qed

lemma near_white_luminance: "calculateLuminance 250 250 245 > 0.9"
proof -
  have a: "((250 / 255 + 0.055) / 1.055) ^ 3 \<le> linear_channel 250"
    by (rule linear_channel_lower) simp_all
  have b: "((245 / 255 + 0.055) / 1.055) ^ 3 \<le> linear_channel 245"
    by (rule linear_channel_lower) simp_all
  have "(0.9::real) < 0.2126 * ((250 / 255 + 0.055) / 1.055) ^ 3
       + 0.7152 * ((250 / 255 + 0.055) / 1.055) ^ 3
       + 0.0722 * ((245 / 255 + 0.055) / 1.055) ^ 3"
    by (simp add: power3_eq_cube)
  also have "\<dots> \<le> calculateLuminance 250 250 245"
    unfolding calculateLuminance_def using a b by (intro add_mono mult_left_mono) simp_all
  finally show ?thesis .
qed


definition near_white_env :: palette_env where
  "near_white_env =
     \<lparr>resize_ok = True, random = near_white_draws, now = 0, to_double = (\<lambda>x. x)\<rparr>"

definition failed_resize_env :: palette_env where
  "failed_resize_env =
     \<lparr>resize_ok = False, random = near_white_draws, now = 0, to_double = (\<lambda>x. x)\<rparr>"

definition orchestrator_options :: partial_options where
  "orchestrator_options =
     \<lparr>maxColors_opt = Some 5, quality_opt = Some 10, ignoreWhite_opt = Some True,
      ignoreBlack_opt = Some True\<rparr>"

lemma near_white_filtered:
  "\<not> keep_pixel (merge_options orchestrator_options) (250, 250, 245)"
  using near_white_luminance
  by (simp add: keep_pixel_def Let_def merge_options_def orchestrator_options_def)

lemma near_white_no_clusters:
  "extractDominantColors (map (\<lambda>i. (250, 250, 245)) [0..<1000])
     (merge_options orchestrator_options) = []"
  by (rule extractDominantColors_nothing_kept)
    (auto simp add: filter_empty_conv near_white_filtered simp del: upt_conv_Cons)

text \<open>
  C5 (as amended).  When zero colour clusters survive the filtering, no step of
  \<open>extractColorPalette\<close> throws: it returns a palette with an empty \<open>colors\<close> array
  and mood focus.  The fixed fallback palette (4 neutral colours, mood focus) is
  returned when a step throws, as when the image manipulator rejects the photo.
\<close>

theorem extractColorPalette_zero_clusters:
  "(resize_ok env \<and> extractPixelData (random env) = Some pixelData
      \<and> extractDominantColors pixelData (merge_options options) = []
    \<longrightarrow> colors (extractColorPalette env options) = []
        \<and> palette_mood (extractColorPalette env options) = Focus)
   \<and> (extractColorPalette_try env options = None
        \<longrightarrow> extractColorPalette env options = createFallbackPalette (now env))
   \<and> length (colors (createFallbackPalette n)) = 4
   \<and> palette_mood (createFallbackPalette n) = Focus"
  using extractColorPalette_no_clusters [of env pixelData options]
    extractColorPalette_step_throws [of env options]
  by (simp add: createFallbackPalette_def)

theorem extractColorPalette_zero_clusters_witness:
  "colors (extractColorPalette near_white_env orchestrator_options) = []
   \<and> palette_mood (extractColorPalette near_white_env orchestrator_options) = Focus
   \<and> extractColorPalette failed_resize_env orchestrator_options = createFallbackPalette 0"
proof -
  have 1: "resize_ok near_white_env"
    and 2: "extractPixelData (random near_white_env) = Some (map (\<lambda>i. (250, 250, 245)) [0..<1000])"
    by (simp_all add: near_white_env_def near_white_pixels)
  have 3: "extractColorPalette_try failed_resize_env orchestrator_options = None"
    by (simp add: extractColorPalette_try_def failed_resize_env_def)
  have 4: "now failed_resize_env = 0"
    by (simp add: failed_resize_env_def)
  from extractColorPalette_zero_clusters
         [of near_white_env "map (\<lambda>i. (250, 250, 245)) [0..<1000]" orchestrator_options]
       extractColorPalette_zero_clusters [of failed_resize_env _ orchestrator_options]
       1 2 3 4 near_white_no_clusters
  show ?thesis by simp
qed

text \<open>
  Every simulated pixel is the near-white (250, 250, 245), all are filtered out and
  no cluster survives; the result has no colours and is not the fallback palette.
\<close>

theorem extractColorPalette_near_white_not_fallback:
  "extractPixelData (random near_white_env) = Some (map (\<lambda>i. (250, 250, 245)) [0..<1000])
   \<and> extractDominantColors (map (\<lambda>i. (250, 250, 245)) [0..<1000])
         (merge_options orchestrator_options) = []
   \<and> colors (extractColorPalette near_white_env orchestrator_options) = []
   \<and> extractColorPalette near_white_env orchestrator_options
       \<noteq> createFallbackPalette (now near_white_env)"
proof -
  have 1: "resize_ok near_white_env"
    and 2: "extractPixelData (random near_white_env) = Some (map (\<lambda>i. (250, 250, 245)) [0..<1000])"
    by (simp_all add: near_white_env_def near_white_pixels)
  from extractColorPalette_no_clusters [OF 1 2 near_white_no_clusters]
  have "colors (extractColorPalette near_white_env orchestrator_options) = []"
    by simp
  moreover have "colors (createFallbackPalette (now near_white_env)) \<noteq> []"
    by (simp add: createFallbackPalette_def)
  ultimately show ?thesis
    using 2 near_white_no_clusters by auto
qed

text \<open>
  The fallback palette is returned only when a step throws: a palette that the
  \<open>try\<close> block completes is named "Workspace Colors", the fallback "Neutral
  Workspace".
\<close>

lemma extractColorPalette_fallback_only_when_throws:
  "extractColorPalette env options = createFallbackPalette n
   \<Longrightarrow> extractColorPalette_try env options = None"
  by (auto simp: extractColorPalette_def extractColorPalette_try_def createFallbackPalette_def
      Let_def split: option.splits if_splits)

section \<open>Response parser: the text cleaner\<close>

text \<open>
  The cleaner is a sequence of regular-expression replacements.  Each one is
  written out as the string function it computes, with the match that
  JavaScript's backtracking search finds first.  \<open>\s\<close> covers, among the code
  units up to 255, tab, line feed, vertical tab, form feed, carriage return,
  space and the no-break space; \<open>\w\<close> is a letter, a digit or the underscore.
\<close>

definition is_space :: "char \<Rightarrow> bool" where
  "is_space c = ((of_char c :: nat) \<in> {9, 10, 11, 12, 13, 32, 160})"

definition is_alnum :: "char \<Rightarrow> bool" where
  "is_alnum c =
     (let n = (of_char c :: nat)
      in (65 \<le> n \<and> n \<le> 90) \<or> (97 \<le> n \<and> n \<le> 122) \<or> (48 \<le> n \<and> n \<le> 57))"

definition is_word_char :: "char \<Rightarrow> bool" where
  "is_word_char c = (is_alnum c \<or> c = CHR ''_'')"

definition is_lower :: "char \<Rightarrow> bool" where
  "is_lower c = (let n = (of_char c :: nat) in 97 \<le> n \<and> n \<le> 122)"

definition dquote :: char where
  "dquote = CHR 0x22"

definition backslash :: char where
  "backslash = CHR 0x5C"

definition skip_ws :: "string \<Rightarrow> string" where
  "skip_ws s = dropWhile is_space s"

text \<open>\<open>expect c s\<close>: the rest of \<open>s\<close> after its first character, which must be \<open>c\<close>.\<close>

definition expect :: "char \<Rightarrow> string \<Rightarrow> string option" where
  "expect c s = (case s of [] \<Rightarrow> None | x # xs \<Rightarrow> if x = c then Some xs else None)"

text \<open>\<open>split_at c s\<close>: the text before the first \<open>c\<close> in \<open>s\<close> and the text after it.\<close>

definition split_at :: "char \<Rightarrow> string \<Rightarrow> (string \<times> string) option" where
  "split_at c s =
     (case dropWhile (\<lambda>x. x \<noteq> c) s of
        [] \<Rightarrow> None
      | x # rest \<Rightarrow> Some (takeWhile (\<lambda>x. x \<noteq> c) s, rest))"

definition rtrim :: "string \<Rightarrow> string" where
  "rtrim s = rev (dropWhile is_space (rev s))"

definition trim :: "string \<Rightarrow> string" where
  "trim s = rtrim (dropWhile is_space s)"

text \<open>
  \<open>s.replace(/re/g, rep)\<close> for a pattern that matches at least one character:
  \<open>m t\<close> is the length of the match at the start of \<open>t\<close>, if there is one.  The
  text is scanned from the left; a match is replaced and the scan goes on behind
  it.  The counter is the number of matched characters still to be passed over.
\<close>

fun replace_every :: "(string \<Rightarrow> nat option) \<Rightarrow> string \<Rightarrow> nat \<Rightarrow> string \<Rightarrow> string" where
  "replace_every m rep k [] = []"
| "replace_every m rep (Suc k) (c # cs) = replace_every m rep k cs"
| "replace_every m rep 0 (c # cs) =
     (case m (c # cs) of
        None \<Rightarrow> c # replace_every m rep 0 cs
      | Some 0 \<Rightarrow> rep @ c # replace_every m rep 0 cs
      | Some (Suc n) \<Rightarrow> rep @ replace_every m rep n cs)"

definition replace_all :: "(string \<Rightarrow> nat option) \<Rightarrow> string \<Rightarrow> string \<Rightarrow> string" where
  "replace_all m rep s = replace_every m rep 0 s"

text \<open>A pattern that is a fixed text.\<close>

definition literal :: "string \<Rightarrow> string \<Rightarrow> nat option" where
  "literal p t = (if starts_with t p then Some (length p) else None)"

text \<open>\<open>/```json\s*/gi\<close> and \<open>/```\s*/g\<close>\<close>

definition fence_json :: "string \<Rightarrow> nat option" where
  "fence_json t =
     (if starts_with t ''```'' \<and> starts_with (toLowerCase (drop 3 t)) ''json''
      then Some (7 + length (takeWhile is_space (drop 7 t)))
      else None)"

definition fence :: "string \<Rightarrow> nat option" where
  "fence t =
     (if starts_with t ''```'' then Some (3 + length (takeWhile is_space (drop 3 t))) else None)"

text \<open>\<open>/^\s*{\s*"[^"]*"\s*:\s*"([^"]*)".*}\s*$/s\<close>, replaced by the group.\<close>

definition object_with_value :: "string \<Rightarrow> string option" where
  "object_with_value s =
     Option.bind (expect (CHR ''{'') (skip_ws s)) (\<lambda>s2.
     Option.bind (expect dquote (skip_ws s2)) (\<lambda>s3.
     Option.bind (split_at dquote s3) (\<lambda>(key, s4).
     Option.bind (expect (CHR '':'') (skip_ws s4)) (\<lambda>s5.
     Option.bind (expect dquote (skip_ws s5)) (\<lambda>s6.
     Option.bind (split_at dquote s6) (\<lambda>(val, s7).
       if rtrim s7 \<noteq> [] \<and> last (rtrim s7) = CHR ''}'' then Some val else None))))))"

text \<open>
  \<open>/^\s*{\s*([^}]*)\s*}\s*$/s\<close> and \<open>/^\s*\[\s*([^\]]*)\s*\]\s*$/s\<close>, replaced by
  the group: the text from the first non-space character behind the opening
  character up to the first closing character, behind which only spaces follow.
\<close>

definition wrapped :: "char \<Rightarrow> char \<Rightarrow> string \<Rightarrow> string option" where
  "wrapped opening closing s =
     Option.bind (expect opening (skip_ws s)) (\<lambda>s2.
     Option.bind (split_at closing (skip_ws s2)) (\<lambda>(body, rest).
       if skip_ws rest = [] then Some body else None))"

text \<open>\<open>/^[^:]*:\s*"([^"]*)".*$/s\<close>, replaced by the group.\<close>

definition field_with_quoted_value :: "string \<Rightarrow> string option" where
  "field_with_quoted_value s =
     Option.bind (split_at (CHR '':'') s) (\<lambda>(pre, s1).
     Option.bind (expect dquote (skip_ws s1)) (\<lambda>s2.
     Option.bind (split_at dquote s2) (\<lambda>(val, rest). Some val)))"

text \<open>\<open>/^[^:]*:\s*([^,}]*).*$/s\<close>, replaced by the group.\<close>

definition field_with_value :: "string \<Rightarrow> string option" where
  "field_with_value s =
     Option.bind (split_at (CHR '':'') s) (\<lambda>(pre, s1).
       Some (takeWhile (\<lambda>c. c \<noteq> CHR '','' \<and> c \<noteq> CHR ''}'') (skip_ws s1)))"

text \<open>A single replacement: the result when the pattern matches, the text itself otherwise.\<close>

definition replace_first :: "(string \<Rightarrow> string option) \<Rightarrow> string \<Rightarrow> string" where
  "replace_first re s = (case re s of Some r \<Rightarrow> r | None \<Rightarrow> s)"

text \<open>\<open>/^["']|["']$/g\<close>, removed: one quote at the start and one at the end.\<close>

definition is_quote :: "char \<Rightarrow> bool" where
  "is_quote c = (c = dquote \<or> c = CHR 0x27)"

definition strip_quotes :: "string \<Rightarrow> string" where
  "strip_quotes s =
     (let s1 = (case s of [] \<Rightarrow> [] | c # cs \<Rightarrow> if is_quote c then cs else s)
      in if s1 \<noteq> [] \<and> is_quote (last s1) then butlast s1 else s1)"

text \<open>\<open>/,\s*$/\<close> and \<open>/^\s*,/\<close>, removed.\<close>

definition strip_trailing_comma :: "string \<Rightarrow> string" where
  "strip_trailing_comma s =
     (if rtrim s \<noteq> [] \<and> last (rtrim s) = CHR '','' then butlast (rtrim s) else s)"

definition strip_leading_comma :: "string \<Rightarrow> string" where
  "strip_leading_comma s = (case expect (CHR '','') (skip_ws s) of Some r \<Rightarrow> r | None \<Rightarrow> s)"

text \<open>
  \<open>/^"category":\s*"[^"]*",?\s*/i\<close> (likewise for \<open>status\<close>), removed; \<open>key\<close> is
  the quoted name with its colon, in lower case.
\<close>

definition keyed_prefix :: "string \<Rightarrow> string \<Rightarrow> (string \<times> string) option" where
  "keyed_prefix key s =
     (if starts_with (toLowerCase s) key
      then Option.bind (expect dquote (skip_ws (drop (length key) s))) (\<lambda>s2. split_at dquote s2)
      else None)"

definition drop_keyed_field :: "string \<Rightarrow> string \<Rightarrow> string option" where
  "drop_keyed_field key s =
     map_option
       (\<lambda>(val, rest).
          skip_ws (case expect (CHR '','') rest of Some r \<Rightarrow> r | None \<Rightarrow> rest))
       (keyed_prefix key s)"

text \<open>
  \<open>/^"observation":\s*"([^"]*)".*$/i\<close> (likewise for \<open>recommendation\<close>), replaced
  by the group.  Without the \<open>s\<close> flag the dot matches no line terminator.
\<close>

definition is_line_terminator :: "char \<Rightarrow> bool" where
  "is_line_terminator c = ((of_char c :: nat) \<in> {10, 13})"

definition keyed_value :: "string \<Rightarrow> string \<Rightarrow> string option" where
  "keyed_value key s =
     Option.bind (keyed_prefix key s) (\<lambda>(val, rest).
       if list_ex is_line_terminator rest then None else Some val)"

text \<open>\<open>/"[^"]*":\s*/g\<close>\<close>

definition quoted_key :: "string \<Rightarrow> nat option" where
  "quoted_key t =
     Option.bind (expect dquote t) (\<lambda>t1.
     Option.bind (split_at dquote t1) (\<lambda>(name, t2).
     Option.bind (expect (CHR '':'') t2) (\<lambda>t3.
       Some (length name + 3 + length (takeWhile is_space t3)))))"

text \<open>\<open>/"\s*,?\s*$/g\<close>: a quote behind which only spaces and at most one comma follow.\<close>

definition quote_at_end :: "string \<Rightarrow> nat option" where
  "quote_at_end t =
     Option.bind (expect dquote t) (\<lambda>t1.
       let t2 = skip_ws t1;
           t3 = (case expect (CHR '','') t2 of Some r \<Rightarrow> r | None \<Rightarrow> t2)
       in if skip_ws t3 = [] then Some (length t) else None)"

text \<open>\<open>/\s+/g\<close>, replaced by one space; the flag says that the scan is inside a run of spaces.\<close>

fun collapse_spaces :: "bool \<Rightarrow> string \<Rightarrow> string" where
  "collapse_spaces in_run [] = []"
| "collapse_spaces in_run (c # cs) =
     (if is_space c
      then (if in_run then collapse_spaces True cs else CHR '' '' # collapse_spaces True cs)
      else c # collapse_spaces False cs)"

definition capitalize :: "string \<Rightarrow> string" where
  "capitalize s =
     (case s of [] \<Rightarrow> [] | c # cs \<Rightarrow> if is_lower c then ascii_upper_char c # cs else s)"

definition cleanText :: "string \<Rightarrow> string" where
  "cleanText text =
     (if text = [] then []
      else
        let cleaned = replace_all fence_json [] text;
            cleaned = replace_all fence [] cleaned;
            cleaned = replace_first object_with_value cleaned;
            cleaned = replace_first (wrapped (CHR ''{'') (CHR ''}'')) cleaned;
            cleaned = replace_first (wrapped (CHR ''['') (CHR '']'')) cleaned;
            cleaned = replace_first field_with_quoted_value cleaned;
            cleaned = replace_first field_with_value cleaned;
            cleaned = strip_quotes cleaned;
            cleaned = replace_all (literal [backslash, dquote]) [dquote] cleaned;
            cleaned = replace_all (literal [backslash, CHR ''n'']) '' '' cleaned;
            cleaned = replace_all (literal [backslash, CHR ''t'']) '' '' cleaned;
            cleaned = replace_all (literal [backslash, CHR ''r'']) [] cleaned;
            cleaned = replace_all (literal [backslash, backslash]) [backslash] cleaned;
            cleaned = strip_trailing_comma cleaned;
            cleaned = strip_leading_comma cleaned;
            cleaned = filter (\<lambda>c. c \<notin> set ''{}[]'') cleaned;
            cleaned = replace_first (drop_keyed_field (dquote # ''category'' @ [dquote, CHR '':''])) cleaned;
            cleaned = replace_first (drop_keyed_field (dquote # ''status'' @ [dquote, CHR '':''])) cleaned;
            cleaned = replace_first (keyed_value (dquote # ''observation'' @ [dquote, CHR '':''])) cleaned;
            cleaned = replace_first (keyed_value (dquote # ''recommendation'' @ [dquote, CHR '':''])) cleaned;
            cleaned = replace_all quoted_key [] cleaned;
            cleaned = replace_all quote_at_end [] cleaned;
            cleaned = dropWhile (\<lambda>c. \<not> is_alnum c) cleaned;
            cleaned = collapse_spaces False cleaned;
            cleaned = trim cleaned
        in if cleaned = [] \<or> length cleaned < 3 \<or> \<not> list_ex is_word_char cleaned then []
           else capitalize cleaned)"

subsection \<open>Clean text is a fixed point of the cleaner\<close>


definition json_artifacts :: string where
  "json_artifacts = [dquote, backslash, CHR '':'', CHR ''{'', CHR ''}'', CHR ''['', CHR '']'', CHR ''`'']"

fun single_spaced :: "string \<Rightarrow> bool" where
  "single_spaced [] = True"
| "single_spaced (c # cs) =
     ((if is_space c then c = CHR '' '' \<and> (case cs of [] \<Rightarrow> True | d # ds \<Rightarrow> \<not> is_space d) else True)
      \<and> single_spaced cs)"

definition already_clean :: "string \<Rightarrow> bool" where
  "already_clean s =
     (3 \<le> length s
      \<and> is_alnum (hd s) \<and> \<not> is_lower (hd s)
      \<and> \<not> is_space (last s) \<and> last s \<noteq> CHR '','' \<and> \<not> is_quote (last s)
      \<and> list_all (\<lambda>c. c \<notin> set json_artifacts) s
      \<and> single_spaced s)"

lemma replace_every_no_match:
  "(\<And>t. t \<noteq> [] \<Longrightarrow> hd t \<in> set s \<Longrightarrow> m t = None) \<Longrightarrow> replace_every m rep 0 s = s"
proof (induction s)
  case Nil
  show ?case by simp
next
  case (Cons c cs)
  have "m (c # cs) = None"
    by (rule Cons.prems) simp_all
  moreover have "replace_every m rep 0 cs = cs"
    by (rule Cons.IH) (rule Cons.prems, simp_all)
  ultimately show ?case by simp
qed

lemma replace_all_trigger:
  assumes "c \<notin> set s" "\<And>t. t \<noteq> [] \<Longrightarrow> hd t \<noteq> c \<Longrightarrow> m t = None"
  shows "replace_all m rep s = s"
  unfolding replace_all_def
  by (rule replace_every_no_match) (use assms in metis)

lemma starts_with_hd: "starts_with t (c # p) \<Longrightarrow> t \<noteq> [] \<and> hd t = c"
  by (cases t) simp_all

lemma fence_json_trigger: "t \<noteq> [] \<Longrightarrow> hd t \<noteq> CHR ''`'' \<Longrightarrow> fence_json t = None"
  by (auto simp: fence_json_def dest: starts_with_hd)

lemma fence_trigger: "t \<noteq> [] \<Longrightarrow> hd t \<noteq> CHR ''`'' \<Longrightarrow> fence t = None"
  by (auto simp: fence_def dest: starts_with_hd)

lemma literal_trigger: "t \<noteq> [] \<Longrightarrow> hd t \<noteq> c \<Longrightarrow> literal (c # p) t = None"
  by (auto simp: literal_def dest: starts_with_hd)

lemma expect_hd: "t \<noteq> [] \<Longrightarrow> hd t \<noteq> c \<Longrightarrow> expect c t = None"
  by (cases t) (simp_all add: expect_def)

lemma quoted_key_trigger: "t \<noteq> [] \<Longrightarrow> hd t \<noteq> dquote \<Longrightarrow> quoted_key t = None"
  by (simp add: quoted_key_def expect_hd)

lemma quote_at_end_trigger: "t \<noteq> [] \<Longrightarrow> hd t \<noteq> dquote \<Longrightarrow> quote_at_end t = None"
  by (simp add: quote_at_end_def expect_hd)

lemma expect_absent: "c \<notin> set s \<Longrightarrow> expect c (dropWhile P s) = None"
proof (cases "dropWhile P s")
  case Nil
  show ?thesis unfolding expect_def Nil by simp
next
  case (Cons x xs)
  assume "c \<notin> set s"
  moreover have "x \<in> set (dropWhile P s)"
    unfolding Cons by simp
  ultimately have "x \<noteq> c"
    by (metis set_dropWhileD)
  then show ?thesis unfolding expect_def Cons by simp
qed

lemma split_at_absent: "c \<notin> set s \<Longrightarrow> split_at c s = None"
proof -
  assume "c \<notin> set s"
  then have e: "dropWhile (\<lambda>x. x \<noteq> c) s = []"
    by (auto simp: dropWhile_eq_Nil_conv)
  show ?thesis unfolding split_at_def e by simp
qed

lemma object_with_value_absent: "CHR ''{'' \<notin> set s \<Longrightarrow> object_with_value s = None"
  by (simp add: object_with_value_def skip_ws_def expect_absent)

lemma wrapped_absent: "opening \<notin> set s \<Longrightarrow> wrapped opening closing s = None"
  by (simp add: wrapped_def skip_ws_def expect_absent)

lemma field_absent:
  "CHR '':'' \<notin> set s \<Longrightarrow> field_with_quoted_value s = None"
  "CHR '':'' \<notin> set s \<Longrightarrow> field_with_value s = None"
  by (simp_all add: field_with_quoted_value_def field_with_value_def split_at_absent)

lemma of_char_dquote: "(of_char dquote :: nat) = 34"
  by (simp add: dquote_def)

lemma js_lower_char_alnum: "is_alnum c \<Longrightarrow> js_lower_char c \<noteq> dquote"
proof
  assume a: "is_alnum c" and "js_lower_char c = dquote"
  then have "(of_char (js_lower_char c) :: nat) = of_char dquote"
    by simp
  then have "(of_char (js_lower_char c) :: nat) = 34"
    by (simp only: of_char_dquote)
  moreover define n where "n = (of_char c :: nat)"
  ultimately have "(if (65 \<le> n \<and> n \<le> 90) \<or> (192 \<le> n \<and> n \<le> 222 \<and> n \<noteq> 215) then n + 32 else n) = 34"
    by (simp only: of_char_js_lower_char)
  moreover from a have "(65 \<le> n \<and> n \<le> 90) \<or> (97 \<le> n \<and> n \<le> 122) \<or> (48 \<le> n \<and> n \<le> 57)"
    by (simp add: is_alnum_def n_def Let_def)
  ultimately show False
    by (auto split: if_splits)
qed

lemma keyed_prefix_alnum:
  assumes "s \<noteq> []" "is_alnum (hd s)"
  shows "keyed_prefix (dquote # k) s = None"
proof -
  have "\<not> starts_with (toLowerCase s) (dquote # k)"
  proof
    assume "starts_with (toLowerCase s) (dquote # k)"
    then have "hd (toLowerCase s) = dquote"
      by (auto dest: starts_with_hd)
    with assms(1) have "js_lower_char (hd s) = dquote"
      by (cases s) (simp_all add: toLowerCase_def)
    with js_lower_char_alnum [OF assms(2)] show False by simp
  qed
  then show ?thesis by (simp add: keyed_prefix_def)
qed

lemma rtrim_id: "s \<noteq> [] \<Longrightarrow> \<not> is_space (last s) \<Longrightarrow> rtrim s = s"
  by (cases s rule: rev_cases) (simp_all add: rtrim_def)

lemma skip_ws_id: "s \<noteq> [] \<Longrightarrow> \<not> is_space (hd s) \<Longrightarrow> skip_ws s = s"
  by (cases s) (simp_all add: skip_ws_def)

lemma single_spaced_Cons:
  "single_spaced (c # cs) \<Longrightarrow> single_spaced cs"
  "single_spaced (c # cs) \<Longrightarrow> is_space c \<Longrightarrow> c = CHR '' ''"
  "single_spaced (c # d # ds) \<Longrightarrow> is_space c \<Longrightarrow> \<not> is_space d"
  by simp_all

lemma collapse_spaces_id:
  "single_spaced s \<Longrightarrow> (in_run \<longrightarrow> (case s of [] \<Rightarrow> True | c # cs \<Rightarrow> \<not> is_space c)) \<Longrightarrow>
   collapse_spaces in_run s = s"
proof (induction s arbitrary: in_run)
  case Nil
  show ?case by simp
next
  case (Cons c cs)
  from Cons.prems(1) have ss: "single_spaced cs"
    by (rule single_spaced_Cons)
  show ?case
  proof (cases "is_space c")
    case True
    from Cons.prems(2) True have nr: "\<not> in_run"
      by simp
    from Cons.prems(1) True have c: "c = CHR '' ''"
      by (rule single_spaced_Cons)
    have "case cs of [] \<Rightarrow> True | d # ds \<Rightarrow> \<not> is_space d"
    proof (cases cs)
      case Nil
      then show ?thesis by simp
    next
      case (Cons d ds)
      from \<open>single_spaced (c # cs)\<close> True have "\<not> is_space d"
        unfolding Cons by (rule single_spaced_Cons)
      then show ?thesis by (simp add: Cons)
    qed
    then have "collapse_spaces True cs = cs"
      by (intro Cons.IH [OF ss]) simp
    then have "collapse_spaces in_run (c # cs) = CHR '' '' # cs"
      using True nr by simp
    then show ?thesis by (simp add: c)
  next
    case False
    have "collapse_spaces False cs = cs"
      by (rule Cons.IH [OF ss]) simp
    with False show ?thesis by simp
  qed
qed

lemma alnum_is_plain:
  assumes "is_alnum c"
  shows "\<not> is_space c" "\<not> is_quote c" "c \<noteq> CHR '',''" "is_word_char c"
  using assms
  by (auto simp: is_alnum_def is_space_def is_quote_def dquote_def is_word_char_def Let_def)

lemma cleanText_already_clean:
  assumes "already_clean s"
  shows "cleanText s = s"
proof -
  from assms have len: "3 \<le> length s" and hd_alnum: "is_alnum (hd s)"
    and hd_upper: "\<not> is_lower (hd s)" and last_plain: "\<not> is_space (last s)"
    "last s \<noteq> CHR '',''" "\<not> is_quote (last s)"
    and no_art: "list_all (\<lambda>c. c \<notin> set json_artifacts) s" and ss: "single_spaced s"
    by (simp_all add: already_clean_def)
  from len obtain c cs where s: "s = c # cs"
    by (cases s) simp_all
  have ne: "s \<noteq> []"
    by (simp add: s)
  have hd_c: "hd s = c"
    by (simp add: s)
  have absent: "dquote \<notin> set s" "backslash \<notin> set s" "CHR '':'' \<notin> set s" "CHR ''{'' \<notin> set s"
    "CHR ''}'' \<notin> set s" "CHR ''['' \<notin> set s" "CHR '']'' \<notin> set s" "CHR ''`'' \<notin> set s"
    using no_art by (auto simp: list_all_iff json_artifacts_def)
  note plain = alnum_is_plain [OF hd_alnum]
  have e1: "replace_all fence_json [] s = s"
    by (rule replace_all_trigger [OF absent(8)]) (rule fence_json_trigger)
  have e2: "replace_all fence [] s = s"
    by (rule replace_all_trigger [OF absent(8)]) (rule fence_trigger)
  have e3: "replace_first object_with_value s = s"
    by (simp add: replace_first_def object_with_value_absent absent)
  have e4: "replace_first (wrapped (CHR ''{'') (CHR ''}'')) s = s"
    by (simp add: replace_first_def wrapped_absent absent)
  have e5: "replace_first (wrapped (CHR ''['') (CHR '']'')) s = s"
    by (simp add: replace_first_def wrapped_absent absent)
  have e6: "replace_first field_with_quoted_value s = s"
    by (simp add: replace_first_def field_absent absent)
  have e7: "replace_first field_with_value s = s"
    by (simp add: replace_first_def field_absent absent)
  have e8: "strip_quotes s = s"
    using plain(2) last_plain(3) by (simp add: strip_quotes_def s)
  have e9: "replace_all (literal (backslash # p)) rep s = s" for p rep
    by (rule replace_all_trigger [OF absent(2)]) (rule literal_trigger)
  have e14: "strip_trailing_comma s = s"
    using last_plain by (simp add: strip_trailing_comma_def rtrim_id [OF ne])
  have sk: "skip_ws s = s"
    using plain(1) by (simp add: skip_ws_id [OF ne])
  have e15: "strip_leading_comma s = s"
    using plain(3) by (simp add: strip_leading_comma_def sk expect_hd [OF ne])
  have e16: "filter (\<lambda>c. c \<notin> set ''{}[]'') s = s"
    using absent by (auto simp: filter_id_conv)
  have kp: "keyed_prefix (dquote # k) s = None" for k
    by (rule keyed_prefix_alnum [OF ne hd_alnum])
  have e17: "replace_first (drop_keyed_field (dquote # k)) s = s" for k
    by (simp add: replace_first_def drop_keyed_field_def kp)
  have e19: "replace_first (keyed_value (dquote # k)) s = s" for k
    by (simp add: replace_first_def keyed_value_def kp)
  have e21: "replace_all quoted_key [] s = s"
    by (rule replace_all_trigger [OF absent(1)]) (rule quoted_key_trigger)
  have e22: "replace_all quote_at_end [] s = s"
    by (rule replace_all_trigger [OF absent(1)]) (rule quote_at_end_trigger)
  have e23: "dropWhile (\<lambda>c. \<not> is_alnum c) s = s"
    using hd_alnum by (simp add: s)
  have e24: "collapse_spaces False s = s"
    by (rule collapse_spaces_id [OF ss]) simp
  have e25: "trim s = s"
    using plain(1) last_plain(1) by (simp add: trim_def s rtrim_id [OF ne, unfolded s])
  have w: "list_ex is_word_char s"
    using plain(4) by (simp add: s)
  have e26: "capitalize s = s"
    using hd_upper by (simp add: capitalize_def s)
  have short: "\<not> length s < 3"
    using len by simp
  show ?thesis
    unfolding cleanText_def Let_def
    by (simp only: e1 e2 e3 e4 e5 e6 e7 e8 e9 e14 e15 e16 e17 e19 e21 e22 e23 e24 e25 e26
        ne w short if_False simp_thms)
qed

definition tidy_sentence :: string where
  "tidy_sentence = ''A tidy desk by a window.''"

text \<open>
  C9 (as amended).  The cleaner returns unchanged, so that applying it twice
  equals applying it once, every text that is already clean in this sense: at
  least 3 characters; the first an upper-case letter or a digit; the last neither
  a space, a comma nor a quote; no double quote, backslash, colon, brace, bracket
  or backtick anywhere; and no whitespace but single spaces between words.
\<close>

theorem cleanText_idempotent_on_clean_text:
  "already_clean s \<Longrightarrow> cleanText s = s \<and> cleanText (cleanText s) = cleanText s"
  by (simp add: cleanText_already_clean)

theorem cleanText_idempotent_on_clean_text_witness:
  "cleanText tidy_sentence = tidy_sentence
   \<and> cleanText (cleanText tidy_sentence) = cleanText tidy_sentence"
proof -
  have "already_clean tidy_sentence"
    by code_simp
  from cleanText_idempotent_on_clean_text [OF this] show ?thesis .
qed

text \<open>
  An output of the cleaner need not be clean: of "a:b:cde" the first pass removes
  the text up to the first colon and capitalises, giving "B:cde"; the second pass
  removes up to the next colon, giving "Cde".
\<close>

theorem cleanText_not_idempotent:
  "cleanText ''a:b:cde'' = ''B:cde''
   \<and> cleanText (cleanText ''a:b:cde'') = ''Cde''
   \<and> cleanText (cleanText ''a:b:cde'') \<noteq> cleanText ''a:b:cde''"
  by code_simp

section \<open>Response parser: structured data\<close>

subsection \<open>\<open>JSON.parse\<close>\<close>

text \<open>
  \<open>JSON.parse\<close> belongs to the platform.  Its model reads a text in two passes: the
  text is cut into tokens, and a stack of the arrays and objects under
  construction takes the tokens one by one.  A numeral gives the double nearest
  to the number it denotes, \<open>fl\<close> being the rounding (a numeral beyond the range of
  the doubles is outside the model).  The strings of the model hold the code units
  0..255; a \<open>\u\<close> escape that denotes a higher code unit is outside the model,
  which treats a text with such an escape as malformed.  An object is the list of
  its own properties in the order in which their names first occur; a repeated
  name takes the later value.
\<close>

datatype token =
    LBrace | RBrace | LBracket | RBracket | Colon | Comma
  | TStr string | TNum real | TTrue | TFalse | TNull

definition is_json_ws :: "char \<Rightarrow> bool" where
  "is_json_ws c = ((of_char c :: nat) \<in> {9, 10, 13, 32})"

definition is_digit :: "char \<Rightarrow> bool" where
  "is_digit c = (let n = (of_char c :: nat) in 48 \<le> n \<and> n \<le> 57)"

definition hex_value :: "char \<Rightarrow> nat option" where
  "hex_value c =
     (let n = (of_char c :: nat)
      in if 48 \<le> n \<and> n \<le> 57 then Some (n - 48)
         else if 65 \<le> n \<and> n \<le> 70 then Some (n - 55)
         else if 97 \<le> n \<and> n \<le> 102 then Some (n - 87)
         else None)"

definition simple_escape :: "char \<Rightarrow> char option" where
  "simple_escape e =
     (if e = dquote \<or> e = backslash \<or> e = CHR ''/'' then Some e
      else if e = CHR ''b'' then Some (CHR 0x08)
      else if e = CHR ''f'' then Some (CHR 0x0C)
      else if e = CHR ''n'' then Some (CHR 0x0A)
      else if e = CHR ''r'' then Some (CHR 0x0D)
      else if e = CHR ''t'' then Some (CHR 0x09)
      else None)"

definition unicode_escape :: "char \<Rightarrow> char \<Rightarrow> char \<Rightarrow> char \<Rightarrow> char option" where
  "unicode_escape a b c d =
     (case (hex_value a, hex_value b, hex_value c, hex_value d) of
        (Some h3, Some h2, Some h1, Some h0) \<Rightarrow>
          (let n = ((h3 * 16 + h2) * 16 + h1) * 16 + h0
           in if n < 256 then Some (char_of n) else None)
      | _ \<Rightarrow> None)"

text \<open>
  The text of a string literal behind its opening quote, and what follows the
  closing quote.
\<close>

fun lex_string :: "string \<Rightarrow> (string \<times> string) option" where
  "lex_string [] = None"
| "lex_string (c # cs) =
     (if c = dquote then Some ([], cs)
      else if c = backslash then
        (case cs of
           [] \<Rightarrow> None
         | e # rest \<Rightarrow>
             if e = CHR ''u'' then
               (case rest of
                  a # b # c' # d # rest' \<Rightarrow>
                    (case unicode_escape a b c' d of
                       None \<Rightarrow> None
                     | Some ch \<Rightarrow> map_option (\<lambda>(s, r). (ch # s, r)) (lex_string rest'))
                | _ \<Rightarrow> None)
             else
               (case simple_escape e of
                  None \<Rightarrow> None
                | Some ch \<Rightarrow> map_option (\<lambda>(s, r). (ch # s, r)) (lex_string rest)))
      else if (of_char c :: nat) < 32 then None
      else map_option (\<lambda>(s, r). (c # s, r)) (lex_string cs))"

definition digits_value :: "string \<Rightarrow> nat" where
  "digits_value ds = foldl (\<lambda>a d. 10 * a + ((of_char d :: nat) - 48)) 0 ds"

text \<open>
  The number a numeral of the JSON grammar
  \<open>-? (0 | [1-9][0-9]*) (. [0-9]+)? ([eE] [+-]? [0-9]+)?\<close> denotes; \<open>None\<close> for any
  other text.
\<close>

definition json_number :: "string \<Rightarrow> real option" where
  "json_number s =
     (let negative = (s \<noteq> [] \<and> hd s = CHR ''-'');
          s1 = (if negative then tl s else s);
          ds = takeWhile is_digit s1;
          s2 = dropWhile is_digit s1;
          has_fraction = (s2 \<noteq> [] \<and> hd s2 = CHR ''.'');
          fs = (if has_fraction then takeWhile is_digit (tl s2) else []);
          s3 = (if has_fraction then dropWhile is_digit (tl s2) else s2);
          has_exponent = (s3 \<noteq> [] \<and> (hd s3 = CHR ''e'' \<or> hd s3 = CHR ''E''));
          s4 = (if has_exponent then tl s3 else s3);
          exponent_negative = (has_exponent \<and> s4 \<noteq> [] \<and> hd s4 = CHR ''-'');
          s5 = (if has_exponent \<and> s4 \<noteq> [] \<and> (hd s4 = CHR ''-'' \<or> hd s4 = CHR ''+'')
                then tl s4 else s4);
          es = (if has_exponent then takeWhile is_digit s5 else []);
          s6 = (if has_exponent then dropWhile is_digit s5 else s5)
      in if ds = [] \<or> (1 < length ds \<and> hd ds = CHR ''0'') then None
         else if has_fraction \<and> fs = [] then None
         else if has_exponent \<and> es = [] then None
         else if s6 \<noteq> [] then None
         else
           Some ((if negative then - 1 else 1)
                 * (real (digits_value ds) + real (digits_value fs) / 10 ^ length fs)
                 * (if exponent_negative then 1 / 10 ^ digits_value es
                    else 10 ^ digits_value es)))"

definition is_number_char :: "char \<Rightarrow> bool" where
  "is_number_char c = (is_digit c \<or> c \<in> set ''+-.eE'')"

lemma map_option_pair:
  "map_option (\<lambda>(s, r). (f s, r)) x = Some (t, r') \<Longrightarrow> \<exists>s'. x = Some (s', r')"
  by (cases x) auto

lemma lex_string_step:
  assumes "lex_string (c # cs) = Some (s, r)" "c \<noteq> dquote"
  shows "\<exists>ys s'. length ys \<le> length cs \<and> lex_string ys = Some (s', r)"
proof (cases "c = backslash")
  case False
  with assms have "map_option (\<lambda>(s, r). (c # s, r)) (lex_string cs) = Some (s, r)"
    by (simp split: if_splits)
  from map_option_pair [OF this] show ?thesis
    by blast
next
  case True
  with assms obtain e rest where cs: "cs = e # rest"
    by (cases cs) simp_all
  show ?thesis
  proof (cases "e = CHR ''u''")
    case False
    with assms True cs obtain ch where
      "map_option (\<lambda>(s, r). (ch # s, r)) (lex_string rest) = Some (s, r)"
      by (simp split: option.splits)
    from map_option_pair [OF this] obtain s' where "lex_string rest = Some (s', r)"
      by blast
    moreover have "length rest \<le> length cs"
      by (simp add: cs)
    ultimately show ?thesis
      by blast
  next
    case u: True
    with assms True cs obtain a b c' d rest' where rest: "rest = a # b # c' # d # rest'"
      by (simp split: list.splits)
    with assms True cs u obtain ch where
      "map_option (\<lambda>(s, r). (ch # s, r)) (lex_string rest') = Some (s, r)"
      by (simp split: option.splits)
    from map_option_pair [OF this] obtain s' where "lex_string rest' = Some (s', r)"
      by blast
    moreover have "length rest' \<le> length cs"
      by (simp add: cs rest)
    ultimately show ?thesis
      by blast
  qed
qed

lemma lex_string_shorter: "lex_string cs = Some (s, r) \<Longrightarrow> length r < length cs"
proof (induction cs arbitrary: s r rule: length_induct)
  case (1 xs)
  show ?case
  proof (cases xs)
    case Nil
    with "1.prems" show ?thesis by simp
  next
    case (Cons c cs)
    show ?thesis
    proof (cases "c = dquote")
      case True
      with "1.prems" Cons show ?thesis by simp
    next
      case False
      from "1.prems" Cons have "lex_string (c # cs) = Some (s, r)"
        by simp
      from lex_string_step [OF this False] obtain ys s' where
        ys: "length ys \<le> length cs" "lex_string ys = Some (s', r)"
        by blast
      from ys(1) Cons have "length ys < length xs"
        by simp
      with "1.IH" ys(2) have "length r < length ys"
        by blast
      with ys(1) Cons show ?thesis
        by simp
    qed
  qed
qed

function lex :: "(real \<Rightarrow> real) \<Rightarrow> string \<Rightarrow> token list option" where
  "lex fl [] = Some []"
| "lex fl (c # cs) =
     (if is_json_ws c then lex fl cs
      else if c = CHR ''{'' then map_option (Cons LBrace) (lex fl cs)
      else if c = CHR ''}'' then map_option (Cons RBrace) (lex fl cs)
      else if c = CHR ''['' then map_option (Cons LBracket) (lex fl cs)
      else if c = CHR '']'' then map_option (Cons RBracket) (lex fl cs)
      else if c = CHR '':'' then map_option (Cons Colon) (lex fl cs)
      else if c = CHR '','' then map_option (Cons Comma) (lex fl cs)
      else if c = dquote then
        (case lex_string cs of
           None \<Rightarrow> None
         | Some (s, rest) \<Rightarrow> map_option (Cons (TStr s)) (lex fl rest))
      else if starts_with (c # cs) ''true'' then map_option (Cons TTrue) (lex fl (drop 3 cs))
      else if starts_with (c # cs) ''false'' then map_option (Cons TFalse) (lex fl (drop 4 cs))
      else if starts_with (c # cs) ''null'' then map_option (Cons TNull) (lex fl (drop 3 cs))
      else if c = CHR ''-'' \<or> is_digit c then
        (case json_number (c # takeWhile is_number_char cs) of
           None \<Rightarrow> None
         | Some x \<Rightarrow> map_option (Cons (TNum (fl x))) (lex fl (dropWhile is_number_char cs)))
      else None)"
  by pat_completeness auto
termination
proof (relation "measure (\<lambda>(fl, s). length s)")
  fix fl :: "real \<Rightarrow> real" and c cs x2 s rest
  assume "lex_string cs = Some x2" "(s, rest) = x2"
  then have "length rest < length cs"
    using lex_string_shorter [of cs s rest] by simp
  then show "((fl, rest), (fl, c # cs)) \<in> measure (\<lambda>(fl, s). length s)"
    by simp
next
  fix fl :: "real \<Rightarrow> real" and c :: char and cs :: string
  have "length (dropWhile is_number_char cs) \<le> length cs"
    by (rule length_dropWhile_le)
  then show "((fl, dropWhile is_number_char cs), (fl, c # cs)) \<in> measure (\<lambda>(fl, s). length s)"
    by simp
qed simp_all

text \<open>Defining an own property: a name that exists keeps its place.\<close>

fun set_property :: "string \<Rightarrow> jsval \<Rightarrow> (string \<times> jsval) list \<Rightarrow> (string \<times> jsval) list" where
  "set_property k v [] = [(k, v)]"
| "set_property k v ((k', v') # kvs) =
     (if k' = k then (k, v) # kvs else (k', v') # set_property k v kvs)"

text \<open>
  An array or an object under construction (an object with the name that waits
  for its value), and what the parser expects next: a value (or, right behind an
  opening bracket, the closing one), a property name (or the closing brace), the
  colon, or a comma or closing character behind a value; \<open>Done\<close> holds the
  finished value.
\<close>

datatype frame = InArr "jsval list" | InObj "(string \<times> jsval) list" "string option"

datatype pstate = WantValue bool | WantKey bool | WantColon | AfterValue | Done jsval

fun place :: "jsval \<Rightarrow> frame list \<Rightarrow> (pstate \<times> frame list) option" where
  "place v [] = Some (Done v, [])"
| "place v (InArr xs # st) = Some (AfterValue, InArr (xs @ [v]) # st)"
| "place v (InObj kvs (Some k) # st) = Some (AfterValue, InObj (set_property k v kvs) None # st)"
| "place v (InObj kvs None # st) = None"

fun parse_step :: "pstate \<Rightarrow> frame list \<Rightarrow> token \<Rightarrow> (pstate \<times> frame list) option" where
  "parse_step (WantValue closable) st (TStr s) = place (JStr s) st"
| "parse_step (WantValue closable) st (TNum x) = place (JNum x) st"
| "parse_step (WantValue closable) st TTrue = place (JBool True) st"
| "parse_step (WantValue closable) st TFalse = place (JBool False) st"
| "parse_step (WantValue closable) st TNull = place JNull st"
| "parse_step (WantValue closable) st LBracket = Some (WantValue True, InArr [] # st)"
| "parse_step (WantValue closable) st LBrace = Some (WantKey True, InObj [] None # st)"
| "parse_step (WantValue True) (InArr [] # st) RBracket = place (JArr []) st"
| "parse_step (WantKey closable) (InObj kvs None # st) (TStr k) =
     Some (WantColon, InObj kvs (Some k) # st)"
| "parse_step (WantKey True) (InObj [] None # st) RBrace = place (JObj []) st"
| "parse_step WantColon st Colon = Some (WantValue False, st)"
| "parse_step AfterValue (InArr xs # st) Comma = Some (WantValue False, InArr xs # st)"
| "parse_step AfterValue (InArr xs # st) RBracket = place (JArr xs) st"
| "parse_step AfterValue (InObj kvs None # st) Comma = Some (WantKey False, InObj kvs None # st)"
| "parse_step AfterValue (InObj kvs None # st) RBrace = place (JObj kvs) st"
| "parse_step p st t = None"

fun parse_tokens :: "pstate \<Rightarrow> frame list \<Rightarrow> token list \<Rightarrow> jsval option" where
  "parse_tokens (Done v) [] [] = Some v"
| "parse_tokens p st [] = None"
| "parse_tokens p st (t # ts) =
     (case parse_step p st t of
        None \<Rightarrow> None
      | Some (p', st') \<Rightarrow> parse_tokens p' st' ts)"

definition JSON_parse :: "(real \<Rightarrow> real) \<Rightarrow> string \<Rightarrow> js_exception + jsval" where
  "JSON_parse fl text =
     (case lex fl text of
        None \<Rightarrow> Inl SyntaxError
      | Some tokens \<Rightarrow>
          (case parse_tokens (WantValue False) [] tokens of
             None \<Rightarrow> Inl SyntaxError
           | Some v \<Rightarrow> Inr v))"

subsection \<open>\<open>extractStructuredData\<close>\<close>

text \<open>
  \<open>find_sub p s\<close>: the text before the first occurrence of \<open>p\<close> in \<open>s\<close> and the text
  behind it.
\<close>

fun find_sub :: "string \<Rightarrow> string \<Rightarrow> (string \<times> string) option" where
  "find_sub p [] = (if p = [] then Some ([], []) else None)"
| "find_sub p (c # cs) =
     (if starts_with (c # cs) p then Some ([], drop (length p) (c # cs))
      else map_option (\<lambda>(before, behind). (c # before, behind)) (find_sub p cs))"

text \<open>
  Group 1 of \<open>/```json\s*([\s\S]*?)\s*```/\<close>: the text between the first \<open>```json\<close>
  and the next \<open>```\<close>, without the white space at its two ends; \<open>None\<close> when the
  expression does not match.
\<close>

definition fenced_json :: "string \<Rightarrow> string option" where
  "fenced_json s =
     (case find_sub ''```json'' s of
        None \<Rightarrow> None
      | Some (before, behind) \<Rightarrow>
          (case find_sub ''```'' (skip_ws behind) of
             None \<Rightarrow> None
           | Some (inner, rest) \<Rightarrow> Some (rtrim inner)))"

text \<open>
  The match of \<open>/\{[\s\S]*\}/\<close>: from the first opening brace to the last closing
  brace behind it.
\<close>

definition brace_span :: "string \<Rightarrow> string option" where
  "brace_span s =
     (let from_brace = dropWhile (\<lambda>c. c \<noteq> CHR ''{'') s;
          span = rev (dropWhile (\<lambda>c. c \<noteq> CHR ''}'') (rev from_brace))
      in if span = [] then None else Some span)"

definition parseUnstructuredResponse :: "string \<Rightarrow> jsval" where
  "parseUnstructuredResponse content =
     JObj [(''workspace_description'', JStr (take 200 content @ ''...'')),
           (''style_assessment'',
            JObj [(''current_style'', JStr ''Modern workspace''),
                  (''alignment_score'', JNum 0.7),
                  (''alignment_explanation'', JStr ''Good potential for improvement'')]),
           (''ergonomic_evaluation'', JArr []),
           (''improvement_priorities'',
            JArr [JStr ''Enhance ergonomics'', JStr ''Improve organization'',
                  JStr ''Add personal touches'']),
           (''color_analysis'',
            JObj [(''dominant_colors'', JArr [JStr ''#F5F5F5'', JStr ''#E0E0E0'', JStr ''#D0D0D0'']),
                  (''mood'', JStr ''focus''),
                  (''color_harmony'', JStr ''Neutral color scheme'')])]"

text \<open>
  The \<open>try\<close> block, and the function with its \<open>catch\<close>.  \<open>parse\<close> stands for
  \<open>JSON.parse\<close>: it returns a value or throws.
\<close>

definition extractStructuredData_try ::
  "(string \<Rightarrow> js_exception + jsval) \<Rightarrow> string \<Rightarrow> js_exception + jsval" where
  "extractStructuredData_try parse aiContent =
     (case fenced_json aiContent of
        Some jsonText \<Rightarrow> parse jsonText
      | None \<Rightarrow>
          (case brace_span aiContent of
             Some objectText \<Rightarrow> parse objectText
           | None \<Rightarrow> Inr (parseUnstructuredResponse aiContent)))"

definition extractStructuredData ::
  "(string \<Rightarrow> js_exception + jsval) \<Rightarrow> string \<Rightarrow> js_exception + jsval" where
  "extractStructuredData parse aiContent =
     (case extractStructuredData_try parse aiContent of
        Inr v \<Rightarrow> Inr v
      | Inl e \<Rightarrow> Inr (parseUnstructuredResponse aiContent))"

subsection \<open>The parser returns, with or without a description\<close>




text \<open>Plain prose and malformed JSON end in the fallback object.\<close>

lemma extractStructuredData_prose:
  \<open>extractStructuredData (JSON_parse fl) ''A tidy desk by a window.''
     = Inr (parseUnstructuredResponse ''A tidy desk by a window.'')
   \<and> extractStructuredData (JSON_parse fl) ''{"mood": "calm",}''
     = Inr (parseUnstructuredResponse ''{"mood": "calm",}'')
   \<and> extractStructuredData (JSON_parse fl) '''' = Inr (parseUnstructuredResponse '''')\<close>
  by code_simp

end
